theory Spec2Isabelle
  imports Main "HOL-Library.Sublist" "HOL-Library.AList"
begin

section \<open>JavaScript strings and errors\<close>

text \<open>
  A JavaScript string is modelled as a \<^typ>\<open>string\<close>, one \<^typ>\<open>char\<close> per code unit,
  for the code units below 256. The identifiers this development is about (addresses,
  DIDs, issuer names, base64 text) are ASCII. \<^verbatim>\<open>toLowerCase\<close> maps the capital letters
  among these code units: \<^verbatim>\<open>A\<close> to \<^verbatim>\<open>Z\<close>, and U+00C0 to U+00DE but for the
  multiplication sign U+00D7; each has its small letter 32 places further.
  A thrown \<^verbatim>\<open>new Error(message)\<close> is the value \<open>Error message\<close> on the left of a sum;
  the errors the runtime itself throws keep their class, with a representative message.
\<close>

datatype error =
  Error string | TypeError string | SyntaxError string | InvalidCharacterError string | RangeError string

definition isUpperAscii :: "char \<Rightarrow> bool" where
  "isUpperAscii c \<longleftrightarrow> 65 \<le> (of_char c :: nat) \<and> (of_char c :: nat) \<le> 90"

definition isUpperLatin1 :: "char \<Rightarrow> bool" where
  "isUpperLatin1 c \<longleftrightarrow>
     192 \<le> (of_char c :: nat) \<and> (of_char c :: nat) \<le> 222 \<and> (of_char c :: nat) \<noteq> 215"

definition lowerChar :: "char \<Rightarrow> char" where
  "lowerChar c =
     (if isUpperAscii c \<or> isUpperLatin1 c then char_of ((of_char c :: nat) + 32) else c)"

definition toLowerCase :: "string \<Rightarrow> string" where
  "toLowerCase s = map lowerChar s"

text \<open>\<^verbatim>\<open>s.includes(sub)\<close>: \<open>sub\<close> occurs in \<open>s\<close> as a contiguous run.\<close>

fun includesStr :: "string \<Rightarrow> string \<Rightarrow> bool" where
  "includesStr [] sub = (sub = [])"
| "includesStr (c # cs) sub = (prefix sub (c # cs) \<or> includesStr cs sub)"

text \<open>\<^verbatim>\<open>s.split(sep)\<close> for a one-character separator: never the empty array.\<close>

fun split :: "char \<Rightarrow> string \<Rightarrow> string list" where
  "split sep [] = [[]]"
| "split sep (c # cs) =
     (if c = sep then [] # split sep cs
      else (let r = split sep cs in (c # hd r) # tl r))"

text \<open>\<^verbatim>\<open>s.trim()\<close>: the white space and line terminators below code unit 256.\<close>

definition isWhite :: "char \<Rightarrow> bool" where
  "isWhite c \<longleftrightarrow> (of_char c :: nat) \<in> {9, 10, 11, 12, 13, 32, 160}"

definition trim :: "string \<Rightarrow> string" where
  "trim s = rev (dropWhile isWhite (rev (dropWhile isWhite s)))"

text \<open>\<^verbatim>\<open>xs.join(sep)\<close>.\<close>

fun join :: "string \<Rightarrow> string list \<Rightarrow> string" where
  "join sep [] = []"
| "join sep [x] = x"
| "join sep (x # y # ys) = x @ sep @ join sep (y # ys)"


text \<open>\<^verbatim>\<open>e.message\<close>.\<close>

fun message :: "error \<Rightarrow> string" where
  "message (Error m) = m"
| "message (TypeError m) = m"
| "message (SyntaxError m) = m"
| "message (InvalidCharacterError m) = m"
| "message (RangeError m) = m"

section \<open>Numbers and JSON values\<close>

text \<open>
  Numbers are modelled as integers: the chain ids, time stamps and ages of this program.
  \<open>numberToString\<close> is the text of a number in a template literal and \<open>parseInt\<close> is
  \<^verbatim>\<open>parseInt(s, 10)\<close> on a run of decimal digits; both are exact on the safe integers
  (magnitude below \<open>2 ^ 53\<close>), where JavaScript prints and reads plain decimals.
\<close>

definition digitChar :: "nat \<Rightarrow> char" where
  "digitChar d = char_of (48 + d)"

definition isDigit :: "char \<Rightarrow> bool" where
  "isDigit c \<longleftrightarrow> 48 \<le> (of_char c :: nat) \<and> (of_char c :: nat) \<le> 57"

definition digitVal :: "char \<Rightarrow> nat" where
  "digitVal c = (of_char c :: nat) - 48"

fun showNat :: "nat \<Rightarrow> string" where
  "showNat n = (if n < 10 then [digitChar n] else showNat (n div 10) @ [digitChar (n mod 10)])"

declare showNat.simps [simp del]

definition numberToString :: "int \<Rightarrow> string" where
  "numberToString n = (if n < 0 then CHR ''-'' # showNat (nat (- n)) else showNat (nat n))"

definition parseInt :: "string \<Rightarrow> int" where
  "parseInt ds = int (foldl (\<lambda>acc c. acc * 10 + digitVal c) 0 ds)"

datatype json =
    JNull
  | JBool bool
  | JNum int
  | JStr string
  | JArr "json list"
  | JObj "(string \<times> json) list"

text \<open>Truthiness of a value; \<open>None\<close> stands for \<^verbatim>\<open>undefined\<close>.\<close>

fun truthy :: "json \<Rightarrow> bool" where
  "truthy JNull = False"
| "truthy (JBool b) = b"
| "truthy (JNum n) = (n \<noteq> 0)"
| "truthy (JStr s) = (s \<noteq> [])"
| "truthy (JArr xs) = True"
| "truthy (JObj kvs) = True"

definition truthyOpt :: "json option \<Rightarrow> bool" where
  "truthyOpt v = (case v of None \<Rightarrow> False | Some j \<Rightarrow> truthy j)"

text \<open>
  The text of a value inside a template literal (\<^verbatim>\<open>String(v)\<close>): an array prints its
  elements joined by commas, \<^verbatim>\<open>null\<close> elements as the empty string.
\<close>

fun templateStr :: "json \<Rightarrow> string" where
  "templateStr JNull = ''null''"
| "templateStr (JBool b) = (if b then ''true'' else ''false'')"
| "templateStr (JNum n) = numberToString n"
| "templateStr (JStr s) = s"
| "templateStr (JArr xs) =
     join '','' (map (\<lambda>x. if x = JNull then [] else templateStr x) xs)"
| "templateStr (JObj kvs) = ''[object Object]''"

definition templateStrOpt :: "json option \<Rightarrow> string" where
  "templateStrOpt v = (case v of None \<Rightarrow> ''undefined'' | Some j \<Rightarrow> templateStr j)"

text \<open>
  Property access \<^verbatim>\<open>v.k\<close> for the keys this program reads: a missing key is
  \<^verbatim>\<open>undefined\<close>, and reading a property of \<^verbatim>\<open>null\<close> throws.
\<close>

definition getProp :: "json \<Rightarrow> string \<Rightarrow> error + json option" where
  "getProp v k =
     (case v of
        JObj kvs \<Rightarrow> Inr (map_of kvs k)
      | JNull \<Rightarrow>
          Inl (TypeError (''Cannot read properties of null (reading '' @ CHR 0x27 # k @ CHR 0x27 # '')''))
      | _ \<Rightarrow> Inr None)"

text \<open>A property of a value already known not to be \<^verbatim>\<open>null\<close>.\<close>

definition propOf :: "json \<Rightarrow> string \<Rightarrow> json option" where
  "propOf v k = (case v of JObj kvs \<Rightarrow> map_of kvs k | _ \<Rightarrow> None)"

text \<open>Sequencing of steps that may throw: the first \<open>Inl\<close> ends the run.\<close>

definition bindE :: "error + 'a \<Rightarrow> ('a \<Rightarrow> error + 'b) \<Rightarrow> error + 'b" where
  "bindE m f = (case m of Inl e \<Rightarrow> Inl e | Inr x \<Rightarrow> f x)"

text \<open>
  \<^verbatim>\<open>ToNumber\<close> for a relational comparison, \<open>None\<close> for \<^verbatim>\<open>NaN\<close>. The model does not
  follow the conversion into strings, arrays and objects: they count as \<^verbatim>\<open>NaN\<close>.
\<close>

fun toNumber :: "json option \<Rightarrow> int option" where
  "toNumber None = None"
| "toNumber (Some JNull) = Some 0"
| "toNumber (Some (JBool b)) = Some (if b then 1 else 0)"
| "toNumber (Some (JNum n)) = Some n"
| "toNumber (Some _) = None"

text \<open>\<^verbatim>\<open>v < n\<close> and \<^verbatim>\<open>v > n\<close> against a number: false when \<open>v\<close> is \<^verbatim>\<open>NaN\<close>.\<close>

definition jsLess :: "json option \<Rightarrow> int \<Rightarrow> bool" where
  "jsLess v n = (case toNumber v of None \<Rightarrow> False | Some x \<Rightarrow> x < n)"

definition jsGreater :: "json option \<Rightarrow> int \<Rightarrow> bool" where
  "jsGreater v n = (case toNumber v of None \<Rightarrow> False | Some x \<Rightarrow> x > n)"

section \<open>Base64: \<^verbatim>\<open>btoa\<close>, \<^verbatim>\<open>atob\<close> and the base64url framing of \<^verbatim>\<open>jwt.ts\<close>\<close>

text \<open>
  A binary string and a \<^verbatim>\<open>Uint8Array\<close> are both a \<^typ>\<open>string\<close>, one \<^typ>\<open>char\<close> per
  byte, so \<^verbatim>\<open>String.fromCharCode(...bytes)\<close> and the \<^verbatim>\<open>charCodeAt\<close> loop are the
  identity. \<open>btoa\<close> is RFC 4648 base64 with padding; \<open>atob\<close> is the forgiving decoder
  of the HTML standard: it drops ASCII white space, accepts missing padding, and fails
  (\<open>None\<close>, an \<^verbatim>\<open>InvalidCharacterError\<close>) on any other character or on a length of
  \<open>1\<close> modulo \<open>4\<close>.
\<close>

definition b64char :: "nat \<Rightarrow> char" where
  "b64char i =
     char_of (if i < 26 then i + 65 else if i < 52 then i + 71 else if i < 62 then i - 4
              else if i = 62 then 43 else (47::nat))"

definition b64val :: "char \<Rightarrow> nat option" where
  "b64val c =
     (let n = (of_char c :: nat) in
        if 65 \<le> n \<and> n \<le> 90 then Some (n - 65)
        else if 97 \<le> n \<and> n \<le> 122 then Some (n - 71)
        else if 48 \<le> n \<and> n \<le> 57 then Some (n + 4)
        else if n = 43 then Some 62
        else if n = 47 then Some 63
        else None)"

fun btoa :: "string \<Rightarrow> string" where
  "btoa [] = []"
| "btoa [a] =
     (let x = (of_char a :: nat) in
        [b64char (x div 4), b64char ((x mod 4) * 16), CHR ''='', CHR ''=''])"
| "btoa [a, b] =
     (let x = (of_char a :: nat); y = (of_char b :: nat) in
        [b64char (x div 4), b64char ((x mod 4) * 16 + y div 16), b64char ((y mod 16) * 4),
         CHR ''=''])"
| "btoa (a # b # c # rest) =
     (let x = (of_char a :: nat); y = (of_char b :: nat); z = (of_char c :: nat) in
        [b64char (x div 4), b64char ((x mod 4) * 16 + y div 16),
         b64char ((y mod 16) * 4 + z div 64), b64char (z mod 64)] @ btoa rest)"

fun decodeSextets :: "nat list \<Rightarrow> string" where
  "decodeSextets (p # q # r # s # rest) =
     [char_of (p * 4 + q div 16), char_of ((q mod 16) * 16 + r div 4),
      char_of ((r mod 4) * 64 + s)] @ decodeSextets rest"
| "decodeSextets [p, q, r] = [char_of (p * 4 + q div 16), char_of ((q mod 16) * 16 + r div 4)]"
| "decodeSextets [p, q] = [char_of (p * 4 + q div 16)]"
| "decodeSextets _ = []"



definition asciiWhitespace :: "char \<Rightarrow> bool" where
  "asciiWhitespace c \<longleftrightarrow> (of_char c :: nat) \<in> {9, 10, 12, 13, 32}"

definition stripPadding :: "string \<Rightarrow> string" where
  "stripPadding d =
     (if length d mod 4 = 0 \<and> d \<noteq> [] \<and> last d = CHR ''='' then
        (if butlast d \<noteq> [] \<and> last (butlast d) = CHR ''='' then butlast (butlast d)
         else butlast d)
      else d)"

definition atob :: "string \<Rightarrow> string option" where
  "atob data =
     (let d = stripPadding (filter (\<lambda>c. \<not> asciiWhitespace c) data) in
        if length d mod 4 = 1 then None
        else if \<exists>c \<in> set d. b64val c = None then None
        else Some (decodeSextets (map (\<lambda>c. the (b64val c)) d)))"

text \<open>\<^verbatim>\<open>base64urlEncode\<close> on bytes: \<^verbatim>\<open>+\<close> to \<^verbatim>\<open>-\<close>, \<^verbatim>\<open>/\<close> to \<^verbatim>\<open>_\<close>, every \<^verbatim>\<open>=\<close> removed.\<close>

definition toUrlChar :: "char \<Rightarrow> char" where
  "toUrlChar c = (if c = CHR ''+'' then CHR ''-'' else if c = CHR ''/'' then CHR ''_'' else c)"

definition fromUrlChar :: "char \<Rightarrow> char" where
  "fromUrlChar c = (if c = CHR ''-'' then CHR ''+'' else if c = CHR ''_'' then CHR ''/'' else c)"

definition base64urlEncodeBytes :: "string \<Rightarrow> string" where
  "base64urlEncodeBytes bytes = filter (\<lambda>c. c \<noteq> CHR ''='') (map toUrlChar (btoa bytes))"

text \<open>
  \<^verbatim>\<open>base64urlDecode\<close>: the two replacements, \<^verbatim>\<open>padEnd\<close> to the next multiple of four,
  then \<^verbatim>\<open>atob\<close>, whose failure is thrown.
\<close>

definition base64urlDecode :: "string \<Rightarrow> error + string" where
  "base64urlDecode data =
     (let base64 = map fromUrlChar data;
          padded = base64 @ replicate ((4 - length base64 mod 4) mod 4) CHR ''=''
      in case atob padded of
           None \<Rightarrow> Inl (InvalidCharacterError ''The string to be decoded is not correctly encoded.'')
         | Some binary \<Rightarrow> Inr binary)"

text \<open>Two lower-case hexadecimal digits per byte: \<^verbatim>\<open>b.toString(16).padStart(2, '0')\<close>.\<close>

definition hexDigit :: "nat \<Rightarrow> char" where
  "hexDigit d = (if d < 10 then char_of (48 + d) else char_of (87 + d))"

definition toHex :: "string \<Rightarrow> string" where
  "toHex bytes = concat (map (\<lambda>b. [hexDigit ((of_char b :: nat) div 16), hexDigit ((of_char b :: nat) mod 16)]) bytes)"

section \<open>Configuration: \<^verbatim>\<open>getEnv\<close> and the trusted issuers (browser \<^verbatim>\<open>utils.ts\<close>)\<close>

text \<open>
  What \<^verbatim>\<open>getEnv\<close> reads from its surroundings: whether \<^verbatim>\<open>window\<close> is in
  \<^verbatim>\<open>globalThis\<close>, the Vite variables \<^verbatim>\<open>import.meta.env\<close>, and \<^verbatim>\<open>process.env\<close>
  (\<open>None\<close> when there is no \<^verbatim>\<open>process\<close>).
\<close>

record environment =
  hasWindow :: bool
  viteEnv :: "string \<Rightarrow> string option"
  processEnv :: "(string \<Rightarrow> string option) option"

definition defaultTrustedIssuers :: string where
  "defaultTrustedIssuers = ''did:web:rebasedemokey.pages.dev,did:web:issuer.tinycloud.xyz''"

text \<open>\<^verbatim>\<open>import.meta.env?.X || d\<close>: an undefined or empty variable gives the default.\<close>

definition orDefault :: "string option \<Rightarrow> string \<Rightarrow> string" where
  "orDefault v d = (case v of None \<Rightarrow> d | Some s \<Rightarrow> if s = [] then d else s)"

definition getEnv :: "environment \<Rightarrow> string \<Rightarrow> error + string" where
  "getEnv env name =
     (if hasWindow env then
        (if name = ''TRUSTED_ISSUERS''
           then Inr (orDefault (viteEnv env ''VITE_TRUSTED_ISSUERS'') defaultTrustedIssuers)
         else if name = ''LIT_CAPACITY_CREDIT_TOKEN_ID''
           then Inr (orDefault (viteEnv env ''VITE_LIT_CAPACITY_CREDIT_TOKEN_ID'') [])
         else Inr [])
      else (case processEnv env of
          Some penv \<Rightarrow>
            (case penv name of
               None \<Rightarrow> Inl (Error (''Node: '' @ name @ '' ENV is not defined, please define it in the .env file''))
             | Some v \<Rightarrow>
                 if v = [] then Inl (Error (''Node: '' @ name @ '' ENV is not defined, please define it in the .env file''))
                 else Inr v)
        | None \<Rightarrow>
            (if name = ''TRUSTED_ISSUERS'' then Inr defaultTrustedIssuers else Inr [])))"

definition getTrustedIssuers :: "environment \<Rightarrow> error + string list" where
  "getTrustedIssuers env =
     (case getEnv env ''TRUSTED_ISSUERS'' of
        Inl e \<Rightarrow> Inl e
      | Inr trustedIssuersEnv \<Rightarrow>
          Inr (filter (\<lambda>issuer. length issuer > 0) (map trim (split CHR '','' trustedIssuersEnv))))"

definition validateTrustedIssuer :: "environment \<Rightarrow> string \<Rightarrow> error + bool" where
  "validateTrustedIssuer env issuer =
     (case getTrustedIssuers env of
        Inl e \<Rightarrow> Inl e
      | Inr trustedIssuers \<Rightarrow> Inr (issuer \<in> set trustedIssuers))"

section \<open>Credential requirements and credentials\<close>

text \<open>
  The \<^verbatim>\<open>githubHandle\<close> claim is declared \<^verbatim>\<open>string | string[]\<close>; nothing checks
  that at run time, so it is kept as the JSON value it is, \<open>None\<close> for \<^verbatim>\<open>undefined\<close>.
\<close>

record claims =
  githubHandle :: "json option"
  minIssuanceAge :: "int option"
  requiredEvidence :: "string list option"

record CredentialRequirements =
  issuer :: string
  credentialType :: string
  claims :: "claims option"

record credSubject =
  subj_id :: "string option"

record ParsedCredential =
  jwt :: string
  cred_issuer :: string
  subject :: string
  credentialSubject :: "credSubject option"
  evidence :: "string option"
  issuanceDate :: string
  handle :: "string option"

text \<open>\<^verbatim>\<open>Array.isArray(h) ? h : [h]\<close>.\<close>

fun handleList :: "json \<Rightarrow> json list" where
  "handleList (JArr hs) = hs"
| "handleList h = [h]"

text \<open>
  The test of the loop in \<^verbatim>\<open>validateGithubCredentialRequirements\<close>:
  \<^verbatim>\<open>!handle || typeof handle !== 'string' || handle.trim().length === 0\<close>.
\<close>

fun invalidHandle :: "json \<Rightarrow> bool" where
  "invalidHandle (JStr s) = (s = [] \<or> length (trim s) = 0)"
| "invalidHandle h = True"

definition validateGithubCredentialRequirements ::
  "environment \<Rightarrow> CredentialRequirements \<Rightarrow> error + unit" where
  "validateGithubCredentialRequirements env requirements =
     (case validateTrustedIssuer env (issuer requirements) of
        Inl e \<Rightarrow> Inl e
      | Inr trusted \<Rightarrow>
          if \<not> trusted then
            (case getTrustedIssuers env of
               Inl e \<Rightarrow> Inl e
             | Inr trustedIssuers \<Rightarrow>
                 Inl (Error (''Untrusted issuer: '' @ issuer requirements
                       @ ''. Trusted issuers: '' @ join '', '' trustedIssuers)))
          else if credentialType requirements \<noteq> ''GitHubVerification'' then
            Inl (Error (''Invalid credential type: '' @ credentialType requirements
                  @ ''. Only GitHubVerification is supported.''))
          else
            (case (case claims requirements of None \<Rightarrow> None | Some cl \<Rightarrow> githubHandle cl) of
               None \<Rightarrow> Inr ()
             | Some gh \<Rightarrow>
                 (case find invalidHandle (handleList gh) of
                    Some h \<Rightarrow>
                      Inl (Error (''Invalid GitHub handle: '' @ templateStr h
                            @ ''. GitHub handles must be non-empty strings.''))
                  | None \<Rightarrow> Inr ())))"

section \<open>The credential matcher (\<^verbatim>\<open>findMatchingCredential\<close>)\<close>

text \<open>
  \<open>getTime\<close> stands for \<^verbatim>\<open>new Date(s).getTime()\<close>, in milliseconds, \<open>None\<close> for the
  \<^verbatim>\<open>NaN\<close> of an unparsable date; \<open>now\<close> is \<^verbatim>\<open>Date.now()\<close>. Every comparison with
  \<^verbatim>\<open>NaN\<close> is false. The predicate is the callback handed to \<^verbatim>\<open>credentials.find\<close>,
  one \<open>if\<close> per early \<^verbatim>\<open>return false\<close>.
\<close>

definition credMatches ::
  "(string \<Rightarrow> int option) \<Rightarrow> int \<Rightarrow> CredentialRequirements \<Rightarrow> string \<Rightarrow> ParsedCredential \<Rightarrow> bool" where
  "credMatches getTime now requirements userAddress cred =
     (if cred_issuer cred \<noteq> issuer requirements then False
      else if (case credentialSubject cred of
                 None \<Rightarrow> True
               | Some cs \<Rightarrow>
                   (case subj_id cs of
                      None \<Rightarrow> True
                    | Some i \<Rightarrow> i = [] \<or> \<not> includesStr i (toLowerCase userAddress)))
        then False
      else if (case (case claims requirements of None \<Rightarrow> None | Some cl \<Rightarrow> githubHandle cl) of
                 None \<Rightarrow> False
               | Some gh \<Rightarrow>
                   truthy gh \<and>
                   (case handle cred of
                      None \<Rightarrow> True
                    | Some h \<Rightarrow> h = [] \<or> JStr h \<notin> set (handleList gh)))
        then False
      else if (case (case claims requirements of None \<Rightarrow> None | Some cl \<Rightarrow> minIssuanceAge cl) of
                 None \<Rightarrow> False
               | Some age \<Rightarrow>
                   age \<noteq> 0 \<and>
                   (case getTime (issuanceDate cred) of
                      None \<Rightarrow> False
                    | Some issuanceTime \<Rightarrow> issuanceTime < now - age * 1000))
        then False
      else True)"

definition findMatchingCredential ::
  "(string \<Rightarrow> int option) \<Rightarrow> int \<Rightarrow> ParsedCredential list \<Rightarrow> CredentialRequirements \<Rightarrow> string
     \<Rightarrow> ParsedCredential option" where
  "findMatchingCredential getTime now credentials requirements userAddress =
     find (credMatches getTime now requirements userAddress) credentials"

section \<open>The runtime: \<^verbatim>\<open>ethers\<close>, \<^verbatim>\<open>JSON\<close> and the text codecs\<close>

text \<open>
  The library functions the program calls and that are no part of this repository are
  fields of one record, a parameter of every function that calls them:
  \<^verbatim>\<open>getAddress\<close> (it throws on a malformed address, and returns the checksummed
  spelling otherwise), \<^verbatim>\<open>keccak256\<close> and \<^verbatim>\<open>toUtf8Bytes\<close>, the signing key's
  \<^verbatim>\<open>sign(digest)\<close>, \<^verbatim>\<open>recoverAddress(digest, {r, s, v})\<close>, \<^verbatim>\<open>JSON.stringify\<close>,
  \<^verbatim>\<open>JSON.parse\<close>, and \<^verbatim>\<open>TextEncoder\<close> and \<^verbatim>\<open>TextDecoder\<close>.
\<close>

record signature =
  sig_r :: string
  sig_s :: string

record runtime =
  getAddress :: "string \<Rightarrow> error + string"
  keccak256 :: "string \<Rightarrow> string"
  toUtf8Bytes :: "string \<Rightarrow> string"
  signDigest :: "string \<Rightarrow> string \<Rightarrow> signature"
  recoverAddress :: "string \<Rightarrow> string \<Rightarrow> string \<Rightarrow> nat \<Rightarrow> error + string"
  JSON_stringify :: "json \<Rightarrow> string"
  JSON_parse :: "string \<Rightarrow> error + json"
  TextEncoder_encode :: "string \<Rightarrow> string"
  TextDecoder_decode :: "string \<Rightarrow> string"

text \<open>\<^verbatim>\<open>isAddress\<close> of \<^verbatim>\<open>ethers\<close>: whether \<^verbatim>\<open>getAddress\<close> returns.\<close>

definition isAddress :: "runtime \<Rightarrow> string \<Rightarrow> bool" where
  "isAddress rt a = (case getAddress rt a of Inl e \<Rightarrow> False | Inr r \<Rightarrow> True)"

section \<open>The DID:PKH codec (\<^verbatim>\<open>did.ts\<close>)\<close>

record DIDPKHAddress =
  did :: string
  address :: string
  chainId :: int

definition createDIDPKH :: "runtime \<Rightarrow> string \<Rightarrow> int \<Rightarrow> error + string" where
  "createDIDPKH rt addr chain =
     (if \<not> isAddress rt addr then Inl (Error (''Invalid Ethereum address: '' @ addr))
      else (case getAddress rt addr of
              Inl e \<Rightarrow> Inl e
            | Inr checksumAddress \<Rightarrow>
                Inr (''did:pkh:eip155:'' @ numberToString chain @ '':'' @ checksumAddress)))"

definition isHexChar :: "char \<Rightarrow> bool" where
  "isHexChar c \<longleftrightarrow>
     (let n = (of_char c :: nat) in
        (48 \<le> n \<and> n \<le> 57) \<or> (65 \<le> n \<and> n \<le> 70) \<or> (97 \<le> n \<and> n \<le> 102))"

text \<open>
  The pattern \<^verbatim>\<open>/^did:pkh:eip155:(\d+):(0x[a-fA-F0-9]{40})$/\<close>: the fixed prefix, the
  longest run of digits (a colon must follow it, and a colon is no digit), not empty,
  then \<^verbatim>\<open>:0x\<close> and exactly forty hexadecimal digits up to the end of the string. The
  result is the two groups.
\<close>

definition matchDidPattern :: "string \<Rightarrow> (string \<times> string) option" where
  "matchDidPattern s =
     (if \<not> prefix ''did:pkh:eip155:'' s then None
      else (let rest = drop 15 s;
                ds = takeWhile isDigit rest;
                after = dropWhile isDigit rest
            in if ds \<noteq> [] \<and> take 3 after = '':0x'' \<and> length (drop 3 after) = 40
                  \<and> list_all isHexChar (drop 3 after)
               then Some (ds, drop 1 after) else None))"

definition parseDIDPKH :: "runtime \<Rightarrow> string \<Rightarrow> error + DIDPKHAddress" where
  "parseDIDPKH rt d =
     (case matchDidPattern d of
        None \<Rightarrow> Inl (Error (''Invalid DID:PKH format: '' @ d))
      | Some (chainIdStr, addr) \<Rightarrow>
          if \<not> isAddress rt addr then Inl (Error (''Invalid address in DID:PKH: '' @ addr))
          else (case getAddress rt addr of
                  Inl e \<Rightarrow> Inl e
                | Inr a \<Rightarrow> Inr \<lparr>did = d, address = a, chainId = parseInt chainIdStr\<rparr>))"

definition validateDIDPKHAddress :: "runtime \<Rightarrow> string \<Rightarrow> string \<Rightarrow> bool" where
  "validateDIDPKHAddress rt d expectedAddress =
     (case parseDIDPKH rt d of
        Inl e \<Rightarrow> False
      | Inr parsed \<Rightarrow> toLowerCase (address parsed) = toLowerCase expectedAddress)"

definition extractAddressFromDID :: "runtime \<Rightarrow> string \<Rightarrow> error + string" where
  "extractAddressFromDID rt d =
     (case parseDIDPKH rt d of Inl e \<Rightarrow> Inl e | Inr parsed \<Rightarrow> Inr (address parsed))"

definition isValidDIDPKH :: "runtime \<Rightarrow> string \<Rightarrow> bool" where
  "isValidDIDPKH rt d =
     (case matchDidPattern d of None \<Rightarrow> False | Some (chainIdStr, addr) \<Rightarrow> isAddress rt addr)"

text \<open>
  What \<^verbatim>\<open>ethers\<close> promises of \<^verbatim>\<open>getAddress\<close>, as far as this program relies on it:
  a result is \<^verbatim>\<open>0x\<close> and forty hexadecimal digits, and it is its own checksummed form.
\<close>

definition isHexAddress :: "string \<Rightarrow> bool" where
  "isHexAddress r \<longleftrightarrow> take 2 r = ''0x'' \<and> length r = 42 \<and> list_all isHexChar (drop 2 r)"

definition addressContract :: "runtime \<Rightarrow> bool" where
  "addressContract rt \<longleftrightarrow>
     (\<forall>a r. getAddress rt a = Inr r \<longrightarrow> isHexAddress r \<and> getAddress rt r = Inr r)"

section \<open>The ES256K token (\<^verbatim>\<open>jwt.ts\<close>)\<close>

record Wallet =
  wallet_address :: string
  privateKey :: string

record verifyResult =
  vr_header :: json
  vr_payload :: json
  valid :: bool

text \<open>\<^verbatim>\<open>base64urlEncode\<close> of a string: its UTF-8 bytes, encoded.\<close>

definition base64urlEncode :: "runtime \<Rightarrow> string \<Rightarrow> string" where
  "base64urlEncode rt data = base64urlEncodeBytes (TextEncoder_encode rt data)"

text \<open>\<^verbatim>\<open>generateNonce\<close>: the sixteen bytes come from \<^verbatim>\<open>crypto.getRandomValues\<close>.\<close>

definition generateNonce :: "string \<Rightarrow> string" where
  "generateNonce randomBytes = base64urlEncodeBytes randomBytes"

text \<open>
  \<^verbatim>\<open>target.set(source, offset)\<close> on a \<^verbatim>\<open>Uint8Array\<close>: a \<^verbatim>\<open>RangeError\<close> when the
  source does not fit.
\<close>

definition setBytes :: "string \<Rightarrow> nat \<Rightarrow> string \<Rightarrow> error + string" where
  "setBytes source offset target =
     (if offset + length source > length target then Inl (RangeError ''offset is out of bounds'')
      else Inr (take offset target @ source @ drop (offset + length source) target))"

text \<open>
  The header of a token and its complete payload. The payload is the list of the
  object's entries; the spread followed by the five fixed keys is five updates, each
  replacing the value of a key in place or appending the key.
\<close>

definition jwtHeader :: "string \<Rightarrow> json" where
  "jwtHeader userDID =
     JObj [(''alg'', JStr ''ES256K''), (''typ'', JStr ''JWT''),
           (''kid'', JStr (userDID @ ''#controller''))]"

definition completePayload :: "(string \<times> json) list \<Rightarrow> string \<Rightarrow> int \<Rightarrow> int \<Rightarrow> string \<Rightarrow> json" where
  "completePayload payload userDID now expirationMinutes randomBytes =
     JObj (AList.update ''nonce'' (JStr (generateNonce randomBytes))
            (AList.update ''exp'' (JNum (now + expirationMinutes * 60))
              (AList.update ''iat'' (JNum now)
                (AList.update ''sub'' (JStr userDID)
                  (AList.update ''iss'' (JStr userDID) payload)))))"

text \<open>
  \<^verbatim>\<open>signES256KJWT(wallet, payload, expirationMinutes)\<close>. The clock (\<^verbatim>\<open>Date.now()\<close>, in
  milliseconds) and the random bytes of the nonce are arguments.
\<close>

definition signES256KJWT ::
  "runtime \<Rightarrow> Wallet \<Rightarrow> (string \<times> json) list \<Rightarrow> int \<Rightarrow> int \<Rightarrow> string \<Rightarrow> error + string" where
  "signES256KJWT rt wallet payload expirationMinutes nowMs randomBytes =
     (let now = nowMs div 1000 in
      case createDIDPKH rt (wallet_address wallet) 1 of
        Inl e \<Rightarrow> Inl e
      | Inr userDID \<Rightarrow>
          (let encodedHeader = base64urlEncode rt (JSON_stringify rt (jwtHeader userDID));
               encodedPayload = base64urlEncode rt (JSON_stringify rt
                 (completePayload payload userDID now expirationMinutes randomBytes));
               signingInput = encodedHeader @ ''.'' @ encodedPayload;
               messageHash = keccak256 rt (toUtf8Bytes rt signingInput);
               sg = signDigest rt (privateKey wallet) messageHash
           in case setBytes (sig_r sg) 0 (replicate 64 (CHR 0x00)) of
                Inl e \<Rightarrow> Inl e
              | Inr withR \<Rightarrow>
                  (case setBytes (sig_s sg) 32 withR of
                     Inl e \<Rightarrow> Inl e
                   | Inr rawSignature \<Rightarrow>
                       Inr (signingInput @ ''.'' @ base64urlEncodeBytes rawSignature))))"

text \<open>An element of the array a destructuring reads: \<^verbatim>\<open>undefined\<close> past the end.\<close>

definition nthOpt :: "'a list \<Rightarrow> nat \<Rightarrow> 'a option" where
  "nthOpt xs i = (if i < length xs then Some (xs ! i) else None)"

text \<open>\<^verbatim>\<open>!s\<close> for a string that may be \<^verbatim>\<open>undefined\<close>.\<close>

definition falsyStr :: "string option \<Rightarrow> bool" where
  "falsyStr s = (case s of None \<Rightarrow> True | Some x \<Rightarrow> x = [])"

text \<open>\<^verbatim>\<open>JSON.parse(new TextDecoder().decode(base64urlDecode(segment)))\<close>.\<close>

definition decodeSegment :: "runtime \<Rightarrow> string \<Rightarrow> error + json" where
  "decodeSegment rt segment =
     (case base64urlDecode segment of
        Inl e \<Rightarrow> Inl e
      | Inr bytes \<Rightarrow> JSON_parse rt (TextDecoder_decode rt bytes))"

text \<open>
  One turn of the loop over the recovery ids: \<^verbatim>\<open>recoverAddress\<close> returns and the
  address it returns equals the signer's, case-insensitively. A throw is caught and the
  loop goes on.
\<close>

definition recoveryMatches :: "runtime \<Rightarrow> string \<Rightarrow> string \<Rightarrow> string \<Rightarrow> string \<Rightarrow> nat \<Rightarrow> bool" where
  "recoveryMatches rt messageHash r s signerAddress v =
     (case recoverAddress rt messageHash r s v of
        Inl e \<Rightarrow> False
      | Inr recovered \<Rightarrow> toLowerCase recovered = toLowerCase signerAddress)"

text \<open>
  What \<^verbatim>\<open>payload.iss.startsWith\<close> needs: a string. On \<^verbatim>\<open>undefined\<close> and on any other
  value the call throws a \<^verbatim>\<open>TypeError\<close>.
\<close>

definition asString :: "json option \<Rightarrow> error + string" where
  "asString v =
     (case v of
        Some (JStr s) \<Rightarrow> Inr s
      | None \<Rightarrow>
          Inl (TypeError (''Cannot read properties of undefined (reading ''
                 @ CHR 0x27 # ''startsWith'' @ CHR 0x27 # '')''))
      | Some JNull \<Rightarrow>
          Inl (TypeError (''Cannot read properties of null (reading ''
                 @ CHR 0x27 # ''startsWith'' @ CHR 0x27 # '')''))
      | Some _ \<Rightarrow> Inl (TypeError ''payload.iss.startsWith is not a function''))"

text \<open>
  \<^verbatim>\<open>verifyES256KJWT(jwt)\<close> of \<^verbatim>\<open>jwt.ts\<close>, with the clock as an argument. Every
  \<^verbatim>\<open>throw\<close> is an \<open>Inl\<close>; an expired token is the result \<open>valid = False\<close>.
\<close>

definition verifyES256KJWT :: "runtime \<Rightarrow> int \<Rightarrow> string \<Rightarrow> error + verifyResult" where
  "verifyES256KJWT rt nowMs token =
     (let parts = split CHR ''.'' token;
          encodedHeader = nthOpt parts 0;
          encodedPayload = nthOpt parts 1;
          encodedSignature = nthOpt parts 2
      in if falsyStr encodedHeader \<or> falsyStr encodedPayload \<or> falsyStr encodedSignature
         then Inl (Error ''Invalid JWT format'')
         else
           bindE (decodeSegment rt (the encodedHeader)) (\<lambda>header.
           bindE (decodeSegment rt (the encodedPayload)) (\<lambda>payload.
           bindE (getProp header ''alg'') (\<lambda>alg.
           if alg \<noteq> Some (JStr ''ES256K'')
           then Inl (Error (''Unsupported algorithm: '' @ templateStrOpt alg))
           else
           bindE (getProp payload ''iss'') (\<lambda>issV.
           bindE (asString issV) (\<lambda>iss.
           if \<not> prefix ''did:pkh:eip155:'' iss \<or> propOf payload ''sub'' \<noteq> Some (JStr iss)
           then Inl (Error ''Invalid DID format in JWT'')
           else
             (let signerAddress = last (split CHR '':'' iss) in
              if signerAddress = [] \<or> \<not> isAddress rt signerAddress
              then Inl (Error ''Invalid address in JWT DID'')
              else if jsLess (propOf payload ''exp'') (nowMs div 1000)
              then Inr \<lparr>vr_header = header, vr_payload = payload, valid = False\<rparr>
              else
                (let signingInput = the encodedHeader @ ''.'' @ the encodedPayload;
                     messageHash = keccak256 rt (toUtf8Bytes rt signingInput)
                 in bindE (base64urlDecode (the encodedSignature)) (\<lambda>rawSignature.
                    if length rawSignature \<noteq> 64 then Inl (Error ''Invalid signature length'')
                    else
                      (let r = ''0x'' @ toHex (take 32 rawSignature);
                           s = ''0x'' @ toHex (drop 32 rawSignature)
                       in Inr \<lparr>vr_header = header, vr_payload = payload,
                                valid = (recoveryMatches rt messageHash r s signerAddress 27
                                         \<or> recoveryMatches rt messageHash r s signerAddress 28)\<rparr>))))))))))"

text \<open>
  The requirement as the JSON value a token carries: the keys that are present, in the
  order of the interface.
\<close>

definition claimsToJson :: "claims \<Rightarrow> json" where
  "claimsToJson cl = JObj
     ((case githubHandle cl of None \<Rightarrow> [] | Some h \<Rightarrow> [(''githubHandle'', h)])
      @ (case minIssuanceAge cl of None \<Rightarrow> [] | Some a \<Rightarrow> [(''minIssuanceAge'', JNum a)])
      @ (case requiredEvidence cl of None \<Rightarrow> [] | Some ev \<Rightarrow> [(''requiredEvidence'', JArr (map JStr ev))]))"

definition requirementsToJson :: "CredentialRequirements \<Rightarrow> json" where
  "requirementsToJson requirements = JObj
     ([(''issuer'', JStr (issuer requirements)),
       (''credentialType'', JStr (credentialType requirements))]
      @ (case claims requirements of None \<Rightarrow> [] | Some cl \<Rightarrow> [(''claims'', claimsToJson cl)]))"

definition createEncryptionJWT ::
  "runtime \<Rightarrow> Wallet \<Rightarrow> CredentialRequirements \<Rightarrow> int \<Rightarrow> string \<Rightarrow> error + string" where
  "createEncryptionJWT rt wallet credentialRequirements nowMs randomBytes =
     signES256KJWT rt wallet
       [(''aud'', JStr ''lit-protocol-encryption''), (''purpose'', JStr ''encrypt''),
        (''resource'', JStr ''credential-gated-secret''),
        (''credential_requirements'', requirementsToJson credentialRequirements)]
       5 nowMs randomBytes"

definition createDecryptionJWT ::
  "runtime \<Rightarrow> Wallet \<Rightarrow> CredentialRequirements \<Rightarrow> int \<Rightarrow> string \<Rightarrow> error + string" where
  "createDecryptionJWT rt wallet credentialRequirements nowMs randomBytes =
     signES256KJWT rt wallet
       [(''aud'', JStr ''lit-protocol-encryption''), (''purpose'', JStr ''decrypt''),
        (''resource'', JStr ''credential-gated-secret''),
        (''credential_requirements'', requirementsToJson credentialRequirements)]
       5 nowMs randomBytes"

text \<open>\<^verbatim>\<open>parseJWT\<close>: the first two segments, decoded and not verified.\<close>

definition parseJWT :: "runtime \<Rightarrow> string \<Rightarrow> error + (json \<times> json)" where
  "parseJWT rt token =
     (let parts = split CHR ''.'' token;
          encodedHeader = nthOpt parts 0;
          encodedPayload = nthOpt parts 1
      in if falsyStr encodedHeader \<or> falsyStr encodedPayload
         then Inl (Error ''Invalid JWT format'')
         else (case decodeSegment rt (the encodedHeader) of
                 Inl e \<Rightarrow> Inl e
               | Inr header \<Rightarrow>
                   (case decodeSegment rt (the encodedPayload) of
                      Inl e \<Rightarrow> Inl e
                    | Inr payload \<Rightarrow> Inr (header, payload))))"

text \<open>
  \<^verbatim>\<open>validateJWTUserAddress\<close>: every throw on the way (a malformed token, a payload that
  is \<^verbatim>\<open>null\<close>, an \<^verbatim>\<open>iss\<close> that is no string) is caught and gives \<^verbatim>\<open>false\<close>.
\<close>

definition validateJWTUserAddress :: "runtime \<Rightarrow> string \<Rightarrow> string \<Rightarrow> bool" where
  "validateJWTUserAddress rt token expectedAddress =
     (case parseJWT rt token of
        Inl e \<Rightarrow> False
      | Inr (header, payload) \<Rightarrow>
          (case getProp payload ''iss'' of
             Inr (Some (JStr iss)) \<Rightarrow> validateDIDPKHAddress rt iss expectedAddress
           | _ \<Rightarrow> False))"



section \<open>The decryption flows (the two \<^verbatim>\<open>index.ts\<close> of the browser package)\<close>

record metadata =
  mock :: "bool option"

record EncryptedData =
  ciphertext :: string
  dataToEncryptHash :: string
  accessControlConditions :: json
  accsResourceString :: string
  credentialRequirements :: CredentialRequirements
  userSignedJWT :: string
  userAddress :: string
  metadata :: "metadata option"

text \<open>
  What a run does besides computing its result, in the order it does it: the warning of
  the credentials-only flow, the minting of the fresh decryption token, the search for a
  matching credential, and the calls to the Lit network. \<open>ExecuteLitAction\<close> is the call
  that hands the ciphertext to the Lit Action, the only place where the secret is
  decrypted.
\<close>

datatype event =
    ConsoleWarn string
  | MintDecryptionJWT
  | CredentialMatching
  | NodeConnect
  | ContractsConnect
  | MintCapacityCredit
  | CapacityDelegation
  | SessionSigs
  | ExecuteLitAction
  | NodeDisconnect

text \<open>The \<^verbatim>\<open>response\<close> object of the credentials-only flow.\<close>

datatype response = Success string | Failure string

definition loadCredentials :: "ParsedCredential list \<Rightarrow> ParsedCredential list" where
  "loadCredentials credentials = credentials"

text \<open>
  \<^verbatim>\<open>decryptFromCredentialsWithJWT(encryptedData, userCredentials, userAddress)\<close>, the
  credentials-only version. \<open>getTime\<close> and \<open>now\<close> are the clock of the matcher.
\<close>

definition isMockData :: "EncryptedData \<Rightarrow> bool" where
  "isMockData encryptedData \<longleftrightarrow>
     (case metadata encryptedData of None \<Rightarrow> False | Some m \<Rightarrow> mock m = Some True)
     \<or> userSignedJWT encryptedData = ''mock.jwt.token''"

definition decryptFromCredentialsWithJWT_credentials ::
  "(string \<Rightarrow> int option) \<Rightarrow> int \<Rightarrow> EncryptedData \<Rightarrow> ParsedCredential list \<Rightarrow> string option
     \<Rightarrow> event list \<times> (error + response)" where
  "decryptFromCredentialsWithJWT_credentials getTime now encryptedData userCredentials userAddr =
     (if isMockData encryptedData then
        (case atob (ciphertext encryptedData) of
           Some decodedContent \<Rightarrow> ([], Inr (Success decodedContent))
         | None \<Rightarrow> ([], Inr (Failure ''Failed to decode mock encrypted content'')))
      else
        (let warned =
               (if \<not> falsyStr userAddr
                   \<and> toLowerCase (the userAddr) \<noteq> toLowerCase (userAddress encryptedData)
                then [ConsoleWarn ''User address mismatch - proceeding with credential verification'']
                else []);
             credentials = loadCredentials userCredentials;
             matchingCredential =
               findMatchingCredential getTime now credentials (credentialRequirements encryptedData)
                 (if falsyStr userAddr then userAddress encryptedData else the userAddr)
         in case matchingCredential of
              None \<Rightarrow>
                (warned @ [CredentialMatching],
                 Inl (Error ''No matching credential found for the specified requirements''))
            | Some c \<Rightarrow>
                (warned @ [CredentialMatching],
                 Inl (Error ''Real Lit Protocol decryption requires wallet operations. This browser package is designed for credentials-only decryption. Please use mock encrypted content for testing.''))))"

text \<open>
  The Lit SDK as the wallet-based flow calls it: for each call, what it returns or throws.
\<close>

record jsParams =
  js_accessControlConditions :: json
  js_ciphertext :: string
  js_dataToEncryptHash :: string
  js_credentialJWT :: string
  js_credentialRequirements :: json
  js_userAddress :: string
  js_userSignedJWT :: string
  js_operationPurpose :: string

record litSDK =
  nodeConnect :: "error option"
  contractsConnect :: "error option"
  mintCapacityCreditsNFT :: "error + string"
  createCapacityDelegationAuthSig :: "string \<Rightarrow> error + string"
  getSessionSigs :: "string \<Rightarrow> string \<Rightarrow> error + string"
  executeJs :: "string \<Rightarrow> jsParams \<Rightarrow> error + json"

text \<open>
  The part of the wallet-based flow that runs once \<^verbatim>\<open>litNodeClient\<close> is assigned: the
  connections, the capacity credit, the session signatures and \<^verbatim>\<open>executeJs\<close>. The first
  throw ends it.
\<close>

definition litNetworkDecrypt ::
  "environment \<Rightarrow> litSDK \<Rightarrow> EncryptedData \<Rightarrow> Wallet \<Rightarrow> ParsedCredential \<Rightarrow> string
     \<Rightarrow> event list \<times> (error + json)" where
  "litNetworkDecrypt env lit encryptedData userWallet matchingCredential decryptionJWT =
     (case nodeConnect lit of
        Some e \<Rightarrow> ([NodeConnect], Inl e)
      | None \<Rightarrow>
     (case contractsConnect lit of
        Some e \<Rightarrow> ([NodeConnect, ContractsConnect], Inl e)
      | None \<Rightarrow>
     (case getEnv env ''LIT_CAPACITY_CREDIT_TOKEN_ID'' of
        Inl e \<Rightarrow> ([NodeConnect, ContractsConnect], Inl e)
      | Inr configuredId \<Rightarrow>
     (let minted = (configuredId = []);
          evs = [NodeConnect, ContractsConnect] @ (if minted then [MintCapacityCredit] else [])
      in case (if minted then mintCapacityCreditsNFT lit else Inr configuredId) of
           Inl e \<Rightarrow> (evs, Inl e)
         | Inr capacityTokenId \<Rightarrow>
        (case createCapacityDelegationAuthSig lit capacityTokenId of
           Inl e \<Rightarrow> (evs @ [CapacityDelegation], Inl e)
         | Inr capacityDelegationAuthSig \<Rightarrow>
        (case getSessionSigs lit capacityDelegationAuthSig (accsResourceString encryptedData) of
           Inl e \<Rightarrow> (evs @ [CapacityDelegation, SessionSigs], Inl e)
         | Inr sessionSigs \<Rightarrow>
             (evs @ [CapacityDelegation, SessionSigs, ExecuteLitAction],
              executeJs lit sessionSigs
                \<lparr>js_accessControlConditions = accessControlConditions encryptedData,
                 js_ciphertext = ciphertext encryptedData,
                 js_dataToEncryptHash = dataToEncryptHash encryptedData,
                 js_credentialJWT = jwt matchingCredential,
                 js_credentialRequirements = requirementsToJson (credentialRequirements encryptedData),
                 js_userAddress = wallet_address userWallet,
                 js_userSignedJWT = decryptionJWT,
                 js_operationPurpose = ''decrypt''\<rparr>)))))))"

text \<open>
  \<^verbatim>\<open>decryptFromCredentialsWithJWT(encryptedData, userWallet, userCredentials)\<close>, the
  wallet-based version. The \<^verbatim>\<open>finally\<close> block disconnects when \<^verbatim>\<open>litNodeClient\<close> has
  been assigned, that is on every way out of \<open>litNetworkDecrypt\<close>.
\<close>

definition decryptFromCredentialsWithJWT_wallet ::
  "runtime \<Rightarrow> environment \<Rightarrow> litSDK \<Rightarrow> (string \<Rightarrow> int option) \<Rightarrow> int \<Rightarrow> string
     \<Rightarrow> EncryptedData \<Rightarrow> Wallet \<Rightarrow> ParsedCredential list \<Rightarrow> event list \<times> (error + json)" where
  "decryptFromCredentialsWithJWT_wallet rt env lit getTime nowMs randomBytes
       encryptedData userWallet userCredentials =
     (if toLowerCase (wallet_address userWallet) \<noteq> toLowerCase (userAddress encryptedData)
      then ([], Inl (Error ''User wallet does not match the encrypted data owner''))
      else if \<not> validateJWTUserAddress rt (userSignedJWT encryptedData) (wallet_address userWallet)
      then ([], Inl (Error ''Stored user JWT does not match user address''))
      else
        (case createDecryptionJWT rt userWallet (credentialRequirements encryptedData) nowMs randomBytes of
           Inl e \<Rightarrow> ([MintDecryptionJWT], Inl e)
         | Inr decryptionJWT \<Rightarrow>
             (case findMatchingCredential getTime nowMs (loadCredentials userCredentials)
                     (credentialRequirements encryptedData) (wallet_address userWallet) of
                None \<Rightarrow>
                  ([MintDecryptionJWT, CredentialMatching],
                   Inl (Error ''No matching credential found for the specified requirements''))
              | Some matchingCredential \<Rightarrow>
                  (let (evs, result) =
                         litNetworkDecrypt env lit encryptedData userWallet matchingCredential decryptionJWT
                   in ([MintDecryptionJWT, CredentialMatching] @ evs @ [NodeDisconnect], result)))))"

section \<open>The enhanced Lit Action (\<^verbatim>\<open>litActionEnhanced.ts\<close>)\<close>

text \<open>
  What the action calls outside itself: \<^verbatim>\<open>fetch\<close> (the response's \<^verbatim>\<open>ok\<close>, its
  \<^verbatim>\<open>status\<close> and what \<^verbatim>\<open>json()\<close> gives), \<^verbatim>\<open>crypto.subtle.importKey\<close> and
  \<^verbatim>\<open>crypto.subtle.verify\<close> for Ed25519, \<^verbatim>\<open>Lit.Actions.decryptAndCombine\<close>, the parsing of
  a date and \<^verbatim>\<open>toISOString\<close>.
\<close>

record fetchResponse =
  resp_ok :: bool
  resp_status :: int
  resp_json :: "error + json"

record actionWorld =
  fetchUrl :: "string \<Rightarrow> error + fetchResponse"
  importKey :: "json \<Rightarrow> error + string"
  ed25519Verify :: "string \<Rightarrow> string \<Rightarrow> string \<Rightarrow> error + bool"
  decryptAndCombine :: "json \<Rightarrow> string \<Rightarrow> string \<Rightarrow> error + string"
  dateGetTime :: "string \<Rightarrow> int option"
  toISOString :: "int \<Rightarrow> error + string"

datatype actionEvent = Fetch string | DecryptAndCombine

text \<open>
  \<^verbatim>\<open>verifyES256KJWT(jwt, expectedAddress)\<close> of the action: both segments are decoded
  before either is parsed, the signer is compared with the expected address, and every
  failure, expiry included, is thrown.
\<close>

definition verifyES256KJWT_action :: "runtime \<Rightarrow> int \<Rightarrow> string \<Rightarrow> string \<Rightarrow> error + verifyResult" where
  "verifyES256KJWT_action rt nowMs token expectedAddress =
     (let parts = split CHR ''.'' token;
          encodedHeader = nthOpt parts 0;
          encodedPayload = nthOpt parts 1;
          encodedSignature = nthOpt parts 2
      in if falsyStr encodedHeader \<or> falsyStr encodedPayload \<or> falsyStr encodedSignature
         then Inl (Error ''Invalid JWT format'')
         else
           bindE (base64urlDecode (the encodedHeader)) (\<lambda>headerBytes.
           bindE (base64urlDecode (the encodedPayload)) (\<lambda>payloadBytes.
           bindE (JSON_parse rt (TextDecoder_decode rt headerBytes)) (\<lambda>header.
           bindE (JSON_parse rt (TextDecoder_decode rt payloadBytes)) (\<lambda>payload.
           bindE (getProp header ''alg'') (\<lambda>alg.
           if alg \<noteq> Some (JStr ''ES256K'')
           then Inl (Error (''Unsupported algorithm: '' @ templateStrOpt alg))
           else
           bindE (getProp payload ''iss'') (\<lambda>issV.
           bindE (asString issV) (\<lambda>iss.
           if \<not> prefix ''did:pkh:eip155:'' iss \<or> propOf payload ''sub'' \<noteq> Some (JStr iss)
           then Inl (Error ''Invalid DID format in JWT'')
           else if toLowerCase (last (split CHR '':'' iss)) \<noteq> toLowerCase expectedAddress
           then Inl (Error ''JWT signer does not match expected address'')
           else if jsLess (propOf payload ''exp'') (nowMs div 1000)
           then Inl (Error ''JWT expired'')
           else
             (let signingInput = the encodedHeader @ ''.'' @ the encodedPayload;
                  messageHash = keccak256 rt (toUtf8Bytes rt signingInput)
              in bindE (base64urlDecode (the encodedSignature)) (\<lambda>rawSignature.
                 if length rawSignature \<noteq> 64 then Inl (Error ''Invalid signature length'')
                 else
                   (let r = ''0x'' @ toHex (take 32 rawSignature);
                        s = ''0x'' @ toHex (drop 32 rawSignature)
                    in if recoveryMatches rt messageHash r s expectedAddress 27
                          \<or> recoveryMatches rt messageHash r s expectedAddress 28
                       then Inr \<lparr>vr_header = header, vr_payload = payload, valid = True\<rparr>
                       else Inl (Error ''Invalid JWT signature''))))))))))))"

text \<open>\<^verbatim>\<open>s.replace(pattern, '')\<close> for a string pattern: the first occurrence is removed.\<close>

fun removeFirst :: "string \<Rightarrow> string \<Rightarrow> string" where
  "removeFirst pat [] = []"
| "removeFirst pat (c # cs) =
     (if prefix pat (c # cs) then drop (length pat) (c # cs) else c # removeFirst pat cs)"

definition endsWith :: "string \<Rightarrow> string \<Rightarrow> bool" where
  "endsWith s suffix' \<longleftrightarrow> suffix suffix' s"

text \<open>
  \<^verbatim>\<open>resolveDIDWeb\<close>: the URL, the fetch, the status check and the body.
\<close>

definition didWebUrl :: "string \<Rightarrow> string" where
  "didWebUrl d = ''https://'' @ removeFirst ''did:web:'' d @ ''/.well-known/did.json''"

definition resolveDIDWeb :: "actionWorld \<Rightarrow> string \<Rightarrow> error + json" where
  "resolveDIDWeb world d =
     bindE (fetchUrl world (didWebUrl d)) (\<lambda>response.
       if \<not> resp_ok response
       then Inl (Error (''Failed to fetch DID document: '' @ numberToString (resp_status response)))
       else resp_json response)"

text \<open>
  \<^verbatim>\<open>===\<close> between a property and a key id: equal primitives. Arrays and objects from
  two different parses are never identical.
\<close>

fun strictEq :: "json option \<Rightarrow> json \<Rightarrow> bool" where
  "strictEq (Some (JArr xs)) k = False"
| "strictEq (Some (JObj kvs)) k = False"
| "strictEq (Some v) k = (v = k)"
| "strictEq None k = False"

text \<open>
  The loop of \<^verbatim>\<open>extractPublicKey\<close>. Reading \<^verbatim>\<open>id\<close> of a \<^verbatim>\<open>null\<close> entry throws, and so
  does \<^verbatim>\<open>endsWith\<close> on an \<^verbatim>\<open>id\<close> that is no string.
\<close>

fun extractLoop :: "json list \<Rightarrow> json \<Rightarrow> error + json option" where
  "extractLoop [] keyId = Inr None"
| "extractLoop (method # rest) keyId =
     bindE (getProp method ''id'') (\<lambda>idV.
     bindE (if strictEq idV keyId then Inr True
            else (case idV of
                    Some (JStr i) \<Rightarrow> Inr (endsWith i ''#controller'')
                  | _ \<Rightarrow> Inl (TypeError ''method.id.endsWith is not a function''))) (\<lambda>named.
     if named \<and> propOf method ''type'' = Some (JStr ''Ed25519VerificationKey2018'')
        \<and> truthyOpt (propOf method ''publicKeyJwk'')
     then Inr (propOf method ''publicKeyJwk'')
     else extractLoop rest keyId))"

definition extractPublicKey :: "json \<Rightarrow> json \<Rightarrow> error + json" where
  "extractPublicKey didDocument keyId =
     bindE (getProp didDocument ''verificationMethod'') (\<lambda>vm.
     bindE (case vm of
              Some (JArr ms) \<Rightarrow> Inr ms
            | Some v \<Rightarrow> if truthy v then Inl (TypeError ''verificationMethods is not iterable'') else Inr []
            | None \<Rightarrow> Inr []) (\<lambda>verificationMethods.
     bindE (extractLoop verificationMethods keyId) (\<lambda>found.
       case found of
         Some jwk \<Rightarrow> Inr jwk
       | None \<Rightarrow> Inl (Error (''Key '' @ templateStr keyId @ '' not found in DID document'')))))"

record edResult =
  ed_valid :: bool
  ed_payload :: json
  ed_header :: json
  ed_issuer :: "json option"

text \<open>\<^verbatim>\<open>JSON.parse(atob(segment.replace(/-/g, '+').replace(/_/g, '/')))\<close>, no padding added.\<close>

definition decodeCredentialSegment :: "runtime \<Rightarrow> string option \<Rightarrow> error + json" where
  "decodeCredentialSegment rt segment =
     (case segment of
        None \<Rightarrow> Inl (TypeError (''Cannot read properties of undefined (reading ''
                       @ CHR 0x27 # ''replace'' @ CHR 0x27 # '')''))
      | Some s \<Rightarrow>
          (case atob (map fromUrlChar s) of
             None \<Rightarrow> Inl (InvalidCharacterError ''The string to be decoded is not correctly encoded.'')
           | Some binary \<Rightarrow> JSON_parse rt binary))"

text \<open>
  The steps of \<^verbatim>\<open>verifyJWTWithEdDSA\<close> after the signature has been checked: the two
  temporal claims, each behind a truthiness test, then the result.
\<close>

definition checkTemporalClaims :: "int \<Rightarrow> json \<Rightarrow> json \<Rightarrow> error + edResult" where
  "checkTemporalClaims nowMs header payload =
     (let now = nowMs div 1000 in
      bindE (getProp payload ''exp'') (\<lambda>exp.
      if truthyOpt exp \<and> jsLess exp now
      then Inl (Error ''JWT expired'')
      else if truthyOpt (propOf payload ''nbf'') \<and> jsGreater (propOf payload ''nbf'') now
      then Inl (Error ''JWT not yet valid'')
      else Inr \<lparr>ed_valid = True, ed_payload = payload, ed_header = header,
                ed_issuer = propOf payload ''iss''\<rparr>))"

text \<open>
  Steps 1 to 9 of \<^verbatim>\<open>verifyJWTWithEdDSA(jwt, issuerDID)\<close>: parsing, the algorithm, the
  issuer's document and key, and the signature check. The trace holds the fetch of the
  issuer's document when the run gets that far; the result is the header and the payload
  of a token whose signature verifies.
\<close>

definition checkCredentialSignature ::
  "runtime \<Rightarrow> actionWorld \<Rightarrow> string \<Rightarrow> string \<Rightarrow> actionEvent list \<times> (error + json \<times> json)" where
  "checkCredentialSignature rt world token issuerDID =
     (let parts = split CHR ''.'' token;
          headerB64 = nthOpt parts 0;
          payloadB64 = nthOpt parts 1;
          signatureB64 = nthOpt parts 2
      in case decodeCredentialSegment rt headerB64 of
           Inl e \<Rightarrow> ([], Inl e)
         | Inr header \<Rightarrow>
        (case decodeCredentialSegment rt payloadB64 of
           Inl e \<Rightarrow> ([], Inl e)
         | Inr payload \<Rightarrow>
        (case getProp header ''alg'' of
           Inl e \<Rightarrow> ([], Inl e)
         | Inr alg \<Rightarrow>
        if alg \<noteq> Some (JStr ''EdDSA'') then ([], Inl (Error ''Unsupported algorithm''))
        else
          ([Fetch (didWebUrl issuerDID)],
           bindE (resolveDIDWeb world issuerDID) (\<lambda>didDocument.
           bindE (extractPublicKey didDocument
                    (if truthyOpt (propOf header ''kid'') then the (propOf header ''kid'')
                     else JStr (issuerDID @ ''#controller''))) (\<lambda>publicKeyJwk.
           bindE (importKey world publicKeyJwk) (\<lambda>publicKey.
           bindE (case signatureB64 of
                    None \<Rightarrow> Inl (TypeError (''Cannot read properties of undefined (reading ''
                       @ CHR 0x27 # ''replace'' @ CHR 0x27 # '')''))
                  | Some sg \<Rightarrow> base64urlDecode sg) (\<lambda>signatureBytes.
           bindE (ed25519Verify world publicKey signatureBytes
                    (TextEncoder_encode rt (the headerB64 @ ''.'' @ the payloadB64))) (\<lambda>isValid.
           if \<not> isValid then Inl (Error ''Invalid JWT signature'')
           else Inr (header, payload))))))))))"

text \<open>\<^verbatim>\<open>verifyJWTWithEdDSA\<close>: the signature check, then step 10, the temporal claims.\<close>

definition verifyJWTWithEdDSA ::
  "runtime \<Rightarrow> actionWorld \<Rightarrow> int \<Rightarrow> string \<Rightarrow> string \<Rightarrow> actionEvent list \<times> (error + edResult)" where
  "verifyJWTWithEdDSA rt world nowMs token issuerDID =
     (case checkCredentialSignature rt world token issuerDID of
        (evs, Inl e) \<Rightarrow> (evs, Inl e)
      | (evs, Inr (header, payload)) \<Rightarrow> (evs, checkTemporalClaims nowMs header payload))"

text \<open>
  \<^verbatim>\<open>a !== b\<close> between two properties read from parsed JSON: equal when both are
  \<^verbatim>\<open>undefined\<close> or both are the same primitive.
\<close>

definition strictEqOpt :: "json option \<Rightarrow> json option \<Rightarrow> bool" where
  "strictEqOpt a b = (case b of None \<Rightarrow> a = None | Some k \<Rightarrow> strictEq a k)"

text \<open>
  \<^verbatim>\<open>credentialTypes.includes(t)\<close>, where \<^verbatim>\<open>credentialTypes\<close> is \<^verbatim>\<open>vc.type || []\<close>: a
  membership test on an array, a substring test on a string, a \<^verbatim>\<open>TypeError\<close> on
  any other truthy value.
\<close>

definition typesInclude :: "json option \<Rightarrow> json option \<Rightarrow> error + bool" where
  "typesInclude types t =
     (if \<not> truthyOpt types then Inr False
      else (case types of
              Some (JArr ts) \<Rightarrow> Inr (\<exists>x \<in> set ts. strictEqOpt (Some x) t)
            | Some (JStr s) \<Rightarrow> Inr (includesStr s (templateStrOpt t))
            | _ \<Rightarrow> Inl (TypeError ''credentialTypes.includes is not a function'')))"

text \<open>
  \<^verbatim>\<open>new Date(v).getTime()\<close> for a property: a string is parsed, a number is the time,
  \<^verbatim>\<open>null\<close> and the booleans convert to the numbers 0 and 1, and \<^verbatim>\<open>undefined\<close> gives
  \<^verbatim>\<open>NaN\<close>. The model does not follow the conversion of arrays and objects into strings:
  they count as \<^verbatim>\<open>NaN\<close>.
\<close>

definition dateOf :: "actionWorld \<Rightarrow> json option \<Rightarrow> int option" where
  "dateOf world v =
     (case v of
        Some (JStr s) \<Rightarrow> dateGetTime world s
      | Some (JNum n) \<Rightarrow> Some n
      | Some JNull \<Rightarrow> Some 0
      | Some (JBool b) \<Rightarrow> Some (if b then 1 else 0)
      | _ \<Rightarrow> None)"

definition validateCredentialClaims ::
  "actionWorld \<Rightarrow> int \<Rightarrow> json \<Rightarrow> json \<Rightarrow> string \<Rightarrow> error + bool" where
  "validateCredentialClaims world nowMs jwtPayload requirements userAddr =
     bindE (getProp jwtPayload ''vc'') (\<lambda>vcV.
     if \<not> truthyOpt vcV then Inl (Error ''No verifiable credential found in JWT'')
     else
     (let vc = the vcV in
     bindE (getProp requirements ''credentialType'') (\<lambda>credType.
     bindE (typesInclude (propOf vc ''type'') credType) (\<lambda>hasType.
     if \<not> hasType
     then Inl (Error (''Required credential type '' @ templateStrOpt credType @ '' not found''))
     else if \<not> strictEqOpt (propOf jwtPayload ''iss'') (propOf requirements ''issuer'')
     then Inl (Error ''Credential issuer does not match requirements'')
     else if \<not> truthyOpt (propOf vc ''credentialSubject'')
             \<or> \<not> truthyOpt (propOf (the (propOf vc ''credentialSubject'')) ''id'')
     then Inl (Error ''No credential subject found'')
     else
     bindE (case propOf (the (propOf vc ''credentialSubject'')) ''id'' of
              Some (JStr i) \<Rightarrow> Inr i
            | _ \<Rightarrow> Inl (TypeError ''credentialSubject.id.split is not a function'')) (\<lambda>subjectId.
     if toLowerCase (last (split CHR '':'' subjectId)) \<noteq> toLowerCase userAddr
     then Inl (Error ''Credential subject does not match user address'')
     else
     (let claimsV = propOf requirements ''claims'';
          gh = (if truthyOpt claimsV then propOf (the claimsV) ''githubHandle'' else None);
          age = (if truthyOpt claimsV then propOf (the claimsV) ''minIssuanceAge'' else None);
          evidenceV = propOf vc ''evidence'';
          handleV = (if truthyOpt evidenceV then propOf (the evidenceV) ''handle'' else evidenceV)
      in if truthyOpt gh
            \<and> (\<not> truthyOpt handleV \<or> \<not> (\<exists>x \<in> set (handleList (the gh)). strictEqOpt (Some x) handleV))
         then Inl (Error (''GitHub handle requirement not met. Required: '' @ templateStrOpt gh
                           @ '', Found: '' @ templateStrOpt handleV))
         else if truthyOpt age
                 \<and> (case (dateOf world (propOf vc ''issuanceDate''), toNumber age) of
                       (Some issuanceTime, Some a) \<Rightarrow> issuanceTime < nowMs - a * 1000
                     | _ \<Rightarrow> False)
         then Inl (Error ''Credential is too old'')
         else Inr True))))))"

text \<open>
  What the action hands to \<^verbatim>\<open>Lit.Actions.setResponse\<close>: the success object, or the
  message of the caught error and its classification.
\<close>

datatype litResponse = LitSuccess json | LitFailure string string

definition errorType :: "string \<Rightarrow> string" where
  "errorType msg =
     (if includesStr msg ''ES256K'' then ''user_jwt_verification''
      else if includesStr msg ''GitHub'' then ''github_credential_verification''
      else if includesStr msg ''decrypt'' then ''decryption_error''
      else ''general_error'')"

definition failed :: "error \<Rightarrow> litResponse" where
  "failed e = LitFailure (message e) (errorType (message e))"

text \<open>\<^verbatim>\<open>new Date(seconds * 1000).toISOString()\<close>: a \<^verbatim>\<open>RangeError\<close> on \<^verbatim>\<open>NaN\<close>.\<close>

definition isoOf :: "actionWorld \<Rightarrow> json option \<Rightarrow> error + string" where
  "isoOf world v =
     (case toNumber v of
        None \<Rightarrow> Inl (RangeError ''Invalid time value'')
      | Some n \<Rightarrow> toISOString world (n * 1000))"

definition orNull :: "json option \<Rightarrow> json" where
  "orNull v = (case v of None \<Rightarrow> JNull | Some j \<Rightarrow> j)"

text \<open>The steps of the action after both tokens are verified: the claims, the decryption, the answer.\<close>

definition releaseSecret ::
  "actionWorld \<Rightarrow> int \<Rightarrow> jsParams \<Rightarrow> verifyResult \<Rightarrow> edResult \<Rightarrow> actionEvent list \<times> litResponse" where
  "releaseSecret world nowMs params es256kResult verificationResult =
     (case validateCredentialClaims world nowMs (ed_payload verificationResult)
             (js_credentialRequirements params) (js_userAddress params) of
        Inl e \<Rightarrow> ([], failed e)
      | Inr ok \<Rightarrow>
          ([DecryptAndCombine],
           (case decryptAndCombine world (js_accessControlConditions params) (js_ciphertext params)
                   (js_dataToEncryptHash params) of
              Inl e \<Rightarrow> failed e
            | Inr secret \<Rightarrow>
                (let payload = vr_payload es256kResult;
                     vcPayload = ed_payload verificationResult;
                     vc = the (propOf vcPayload ''vc'');
                     evidenceV = propOf vc ''evidence''
                 in case isoOf world (propOf payload ''iat'') of
                      Inl e \<Rightarrow> failed e
                    | Inr issuedAt \<Rightarrow>
                   (case isoOf world (propOf payload ''exp'') of
                      Inl e \<Rightarrow> failed e
                    | Inr expiresAt \<Rightarrow>
                        LitSuccess (JObj
                          [(''success'', JBool True), (''secret'', JStr secret),
                           (''verifiedCredential'', JObj
                              [(''issuer'', orNull (propOf vcPayload ''iss'')),
                               (''subject'', orNull (propOf vcPayload ''sub'')),
                               (''githubHandle'',
                                  orNull (if truthyOpt evidenceV then propOf (the evidenceV) ''handle'' else None)),
                               (''issuanceDate'', orNull (propOf vc ''issuanceDate''))]),
                           (''verifiedUserJWT'', JObj
                              [(''userDID'', orNull (propOf payload ''iss'')),
                               (''purpose'', orNull (propOf payload ''purpose'')),
                               (''issuedAt'', JStr issuedAt), (''expiresAt'', JStr expiresAt),
                               (''nonce'', orNull (propOf payload ''nonce''))]),
                           (''authenticationFactors'', JArr
                              [JStr ''GitHub credential from trusted issuer'',
                               JStr ''Ethereum key ownership proof''])]))))))"

text \<open>
  The main body of \<^verbatim>\<open>_litActionCodeWithES256K\<close>. Nothing escapes the \<^verbatim>\<open>try\<close>: every
  throw becomes a failure response. The issuer handed to the credential verifier is read
  from the requirement; the model takes it as a string.
\<close>

definition litActionCodeWithES256K ::
  "runtime \<Rightarrow> actionWorld \<Rightarrow> int \<Rightarrow> jsParams \<Rightarrow> actionEvent list \<times> litResponse" where
  "litActionCodeWithES256K rt world nowMs params =
     (case verifyES256KJWT_action rt nowMs (js_userSignedJWT params) (js_userAddress params) of
        Inl e \<Rightarrow> ([], failed e)
      | Inr es256kResult \<Rightarrow>
          (let payload = vr_payload es256kResult in
           if propOf payload ''purpose'' \<noteq> Some (JStr (js_operationPurpose params))
           then ([], failed (Error (''JWT purpose mismatch. Expected: '' @ js_operationPurpose params
                                     @ '', Got: '' @ templateStrOpt (propOf payload ''purpose''))))
           else if map_option (JSON_stringify rt) (propOf payload ''credential_requirements'')
                     \<noteq> Some (JSON_stringify rt (js_credentialRequirements params))
           then ([], failed (Error ''JWT credential requirements do not match operation requirements''))
           else if propOf payload ''aud'' \<noteq> Some (JStr ''lit-protocol-encryption'')
           then ([], failed (Error (''Invalid JWT audience: '' @ templateStrOpt (propOf payload ''aud''))))
           else
             (case getProp (js_credentialRequirements params) ''issuer'' of
                Inl e \<Rightarrow> ([], failed e)
              | Inr issuerV \<Rightarrow>
                  (case asString issuerV of
                     Inl e \<Rightarrow> ([], failed e)
                   | Inr issuerDID \<Rightarrow>
                       (case verifyJWTWithEdDSA rt world nowMs (js_credentialJWT params) issuerDID of
                          (evs, Inl e) \<Rightarrow> (evs, failed e)
                        | (evs, Inr verificationResult) \<Rightarrow>
                            (let (evs', r) = releaseSecret world nowMs params es256kResult verificationResult
                             in (evs @ evs', r)))))))"

section \<open>The matcher and the policy, as the specification words them\<close>

text \<open>
  The definitions of this section follow the specification's sentences: they are what the
  functions above are compared with, one predicate per sentence. They share with the
  program the primitives of JavaScript only (\<^verbatim>\<open>toLowerCase\<close>, truthiness, white space),
  and read the two optional claims through the accessors below.
\<close>

definition handleClaim :: "CredentialRequirements \<Rightarrow> json option" where
  "handleClaim requirements = (case claims requirements of None \<Rightarrow> None | Some cl \<Rightarrow> githubHandle cl)"

definition ageClaim :: "CredentialRequirements \<Rightarrow> int option" where
  "ageClaim requirements = (case claims requirements of None \<Rightarrow> None | Some cl \<Rightarrow> minIssuanceAge cl)"

text \<open>
  ``The candidate's subject identifier contains the lowercase subject address as a
  substring'': there is an identifier, it is not empty, and the address occurs in it.
\<close>

definition subjectContains :: "string \<Rightarrow> ParsedCredential \<Rightarrow> bool" where
  "subjectContains addr cred =
     (case credentialSubject cred of
        None \<Rightarrow> False
      | Some cs \<Rightarrow> (case subj_id cs of None \<Rightarrow> False | Some i \<Rightarrow> i \<noteq> [] \<and> sublist (toLowerCase addr) i))"

text \<open>
  The accepted values of a handle claim, which the data model types
  \<^verbatim>\<open>string | string[]\<close>: the string itself, or the strings of the list.
\<close>

fun stringsOf :: "json list \<Rightarrow> string list" where
  "stringsOf [] = []"
| "stringsOf (JStr s # vs) = s # stringsOf vs"
| "stringsOf (v # vs) = stringsOf vs"

fun acceptedValues :: "json \<Rightarrow> string list" where
  "acceptedValues (JStr s) = [s]"
| "acceptedValues (JArr vs) = stringsOf vs"
| "acceptedValues v = []"

text \<open>
  ``If the requirement specifies handle claim(s), the candidate's handle must equal one of
  the accepted values'': a claim counts as specified when it is truthy (the empty string
  does not), and the candidate's handle counts when it is not empty.
\<close>

definition handleAccepted :: "CredentialRequirements \<Rightarrow> ParsedCredential \<Rightarrow> bool" where
  "handleAccepted requirements cred =
     (case handleClaim requirements of
        None \<Rightarrow> True
      | Some gh \<Rightarrow>
          if truthy gh
          then (case handle cred of None \<Rightarrow> False | Some h \<Rightarrow> h \<noteq> [] \<and> h \<in> set (acceptedValues gh))
          else True)"

text \<open>The three predicates of the matcher that do not read the clock.\<close>

definition matchSpec :: "CredentialRequirements \<Rightarrow> string \<Rightarrow> ParsedCredential \<Rightarrow> bool" where
  "matchSpec requirements addr cred \<longleftrightarrow>
     cred_issuer cred = issuer requirements \<and> subjectContains addr cred \<and>
     handleAccepted requirements cred"

text \<open>
  The same three predicates to the letter of the claim: the identifier contains the
  address, and the handle is among the accepted values whenever a handle claim is there.
\<close>

definition claimedMatch :: "CredentialRequirements \<Rightarrow> string \<Rightarrow> ParsedCredential \<Rightarrow> bool" where
  "claimedMatch requirements addr cred \<longleftrightarrow>
     cred_issuer cred = issuer requirements \<and>
     (case credentialSubject cred of
        None \<Rightarrow> False
      | Some cs \<Rightarrow> (case subj_id cs of None \<Rightarrow> False | Some i \<Rightarrow> sublist (toLowerCase addr) i)) \<and>
     (case handleClaim requirements of
        None \<Rightarrow> True
      | Some gh \<Rightarrow> (case handle cred of None \<Rightarrow> False | Some h \<Rightarrow> h \<in> set (acceptedValues gh)))"

text \<open>
  ``If the requirement specifies a minimum issuance age,
  \<^verbatim>\<open>now - issuanceDate >= minIssuanceAge\<close>'': the credential was issued at least that many
  seconds ago. The clock and the issuance time are in milliseconds.
\<close>

definition minimumAgeReached ::
  "(string \<Rightarrow> int option) \<Rightarrow> int \<Rightarrow> CredentialRequirements \<Rightarrow> ParsedCredential \<Rightarrow> bool" where
  "minimumAgeReached getTime now requirements cred =
     (case ageClaim requirements of
        None \<Rightarrow> True
      | Some age \<Rightarrow>
          (case getTime (issuanceDate cred) of None \<Rightarrow> False | Some t \<Rightarrow> now - t \<ge> age * 1000))"

definition trustedList :: "string list" where
  "trustedList = [''did:web:rebasedemokey.pages.dev'', ''did:web:issuer.tinycloud.xyz'']"

text \<open>``Empty, non-string, or whitespace-only''.\<close>

fun blankHandle :: "json \<Rightarrow> bool" where
  "blankHandle (JStr s) = (s = [] \<or> list_all isWhite s)"
| "blankHandle h = True"

text \<open>
  ``Any supplied handle claim value (singular or list element)'' is blank: an element of
  the list when the claim is a list, the claim itself otherwise.
\<close>

fun anyBlankHandle :: "json option \<Rightarrow> bool" where
  "anyBlankHandle None = False"
| "anyBlankHandle (Some (JArr hs)) = list_ex blankHandle hs"
| "anyBlankHandle (Some h) = blankHandle h"

section \<open>Sample inputs\<close>

text \<open>
  A browser with no Vite override, the requirements of the repository's tests, three
  credentials of one issuer, and a clock that reads one issuance date.
\<close>

definition browserEnv :: environment where
  "browserEnv = \<lparr>hasWindow = True, viteEnv = Map.empty, processEnv = None\<rparr>"

definition sampleAddress :: string where
  "sampleAddress = ''0xABCDEF0123456789abcdef0123456789ABCDEF12''"

definition sampleIssuanceDate :: string where
  "sampleIssuanceDate = ''2024-01-01T00:00:00.000Z''"

definition sampleGetTime :: "string \<Rightarrow> int option" where
  "sampleGetTime s = (if s = sampleIssuanceDate then Some 1704067200000 else None)"

definition reqAlice :: CredentialRequirements where
  "reqAlice = \<lparr>issuer = ''did:web:rebasedemokey.pages.dev'', credentialType = ''GitHubVerification'',
     claims = Some \<lparr>githubHandle = Some (JStr ''alice''), minIssuanceAge = None, requiredEvidence = None\<rparr>\<rparr>"

definition reqUntrusted :: CredentialRequirements where
  "reqUntrusted = \<lparr>issuer = ''did:web:untrusted-issuer.com'', credentialType = ''GitHubVerification'',
     claims = Some \<lparr>githubHandle = Some (JStr ''someuser''), minIssuanceAge = None, requiredEvidence = None\<rparr>\<rparr>"

definition reqAged :: CredentialRequirements where
  "reqAged = \<lparr>issuer = ''did:web:rebasedemokey.pages.dev'', credentialType = ''GitHubVerification'',
     claims = Some \<lparr>githubHandle = Some (JStr ''alice''), minIssuanceAge = Some 60, requiredEvidence = None\<rparr>\<rparr>"

text \<open>
  The requirement with three handles of the repository's tests (the first is the one of
  the sample credential), and one whose list has an element of white space only.
\<close>

definition reqHandles :: CredentialRequirements where
  "reqHandles = \<lparr>issuer = ''did:web:rebasedemokey.pages.dev'', credentialType = ''GitHubVerification'',
     claims = Some \<lparr>githubHandle = Some (JArr [JStr ''alice'', JStr ''anotheruser'', JStr ''thirduser'']),
       minIssuanceAge = None, requiredEvidence = None\<rparr>\<rparr>"

definition reqBlankElement :: CredentialRequirements where
  "reqBlankElement = \<lparr>issuer = ''did:web:rebasedemokey.pages.dev'', credentialType = ''GitHubVerification'',
     claims = Some \<lparr>githubHandle = Some (JArr [JStr ''alice'', JStr ''  '']),
       minIssuanceAge = None, requiredEvidence = None\<rparr>\<rparr>"

text \<open>A browser whose Vite setting spells the two trusted issuers with spaces around them.\<close>

definition spacedEnv :: environment where
  "spacedEnv = \<lparr>hasWindow = True,
     viteEnv = (\<lambda>name. if name = ''VITE_TRUSTED_ISSUERS''
                 then Some '' did:web:rebasedemokey.pages.dev , did:web:issuer.tinycloud.xyz ''
                 else None),
     processEnv = None\<rparr>"

definition credAlice :: ParsedCredential where
  "credAlice = \<lparr>jwt = ''alice.credential.jwt'', cred_issuer = ''did:web:rebasedemokey.pages.dev'',
     subject = ''did:pkh:eip155:1:0xabcdef0123456789abcdef0123456789abcdef12'',
     credentialSubject = Some \<lparr>subj_id = Some ''did:pkh:eip155:1:0xabcdef0123456789abcdef0123456789abcdef12''\<rparr>,
     evidence = None, issuanceDate = sampleIssuanceDate, handle = Some ''alice''\<rparr>"

definition credBob :: ParsedCredential where
  "credBob = \<lparr>jwt = ''bob.credential.jwt'', cred_issuer = ''did:web:rebasedemokey.pages.dev'',
     subject = ''did:pkh:eip155:1:0xabcdef0123456789abcdef0123456789abcdef12'',
     credentialSubject = Some \<lparr>subj_id = Some ''did:pkh:eip155:1:0xabcdef0123456789abcdef0123456789abcdef12''\<rparr>,
     evidence = None, issuanceDate = sampleIssuanceDate, handle = Some ''bob''\<rparr>"

definition credElsewhere :: ParsedCredential where
  "credElsewhere = \<lparr>jwt = ''other.credential.jwt'', cred_issuer = ''did:web:rebasedemokey.pages.dev'',
     subject = ''did:pkh:eip155:1:0x1111111111111111111111111111111111111111'',
     credentialSubject = Some \<lparr>subj_id = Some ''did:pkh:eip155:1:0x1111111111111111111111111111111111111111''\<rparr>,
     evidence = None, issuanceDate = sampleIssuanceDate, handle = Some ''alice''\<rparr>"

text \<open>
  A runtime for the examples. Its \<^verbatim>\<open>getAddress\<close> knows one address, the first test
  vector of EIP-55, in its lower-case and its checksummed spelling. Its signature scheme
  is a toy one: the digest is the first 32 bytes of the message, \<open>s\<close> is the digest,
  \<open>r\<close> is the padded key, and recovery answers at \<open>v = 28\<close>. Its JSON codec is a
  table: each document of the examples has a one-letter text.
\<close>

definition vectorAddress :: string where
  "vectorAddress = ''0x5aAeb6053F3E94C9b9A09f33669435E7Ef1BeAed''"

definition sampleGetAddress :: "string \<Rightarrow> error + string" where
  "sampleGetAddress a =
     (if a = vectorAddress \<or> a = ''0x5aaeb6053f3e94c9b9a09f33669435e7ef1beaed''
      then Inr vectorAddress else Inl (Error ''invalid address''))"

definition pad32 :: "string \<Rightarrow> string" where
  "pad32 b = take 32 (b @ replicate 32 (CHR 0x00))"

definition sampleWallet :: Wallet where
  "sampleWallet = \<lparr>wallet_address = vectorAddress, privateKey = ''sample-private-key''\<rparr>"

definition sampleSign :: "string \<Rightarrow> string \<Rightarrow> signature" where
  "sampleSign key digest = \<lparr>sig_r = pad32 key, sig_s = pad32 digest\<rparr>"

definition sampleRecover :: "string \<Rightarrow> string \<Rightarrow> string \<Rightarrow> nat \<Rightarrow> error + string" where
  "sampleRecover digest r s v =
     (if v = 28 \<and> s = ''0x'' @ toHex (pad32 digest) \<and> r = ''0x'' @ toHex (pad32 (privateKey sampleWallet))
      then Inr vectorAddress else Inl (Error ''invalid signature''))"

definition sampleRandomBytes :: string where
  "sampleRandomBytes = replicate 16 (CHR 0x2A)"

definition sampleDID :: string where
  "sampleDID = ''did:pkh:eip155:1:0x5aAeb6053F3E94C9b9A09f33669435E7Ef1BeAed''"

definition sampleHeader :: json where
  "sampleHeader = JObj [(''alg'', JStr ''ES256K''), (''typ'', JStr ''JWT''),
                        (''kid'', JStr (sampleDID @ ''#controller''))]"

definition samplePayloadFields :: "(string \<times> json) list" where
  "samplePayloadFields =
     [(''aud'', JStr ''lit-protocol-encryption''), (''purpose'', JStr ''decrypt''),
      (''resource'', JStr ''credential-gated-secret''),
      (''credential_requirements'', requirementsToJson reqAlice)]"

definition sampleStamp :: "(string \<times> json) list" where
  "sampleStamp =
     [(''iss'', JStr sampleDID), (''sub'', JStr sampleDID), (''iat'', JNum 5),
      (''exp'', JNum 305), (''nonce'', JStr (generateNonce sampleRandomBytes))]"

definition sampleCompletePayload :: json where
  "sampleCompletePayload = JObj (samplePayloadFields @ sampleStamp)"

definition sampleEncryptPayload :: json where
  "sampleEncryptPayload = JObj
     ([(''aud'', JStr ''lit-protocol-encryption''), (''purpose'', JStr ''encrypt''),
       (''resource'', JStr ''credential-gated-secret''),
       (''credential_requirements'', requirementsToJson reqAlice)] @ sampleStamp)"

definition sampleCredentialHeader :: json where
  "sampleCredentialHeader = JObj [(''alg'', JStr ''EdDSA''), (''typ'', JStr ''JWT'')]"

definition sampleCredentialPayload :: json where
  "sampleCredentialPayload = JObj
     [(''iss'', JStr ''did:web:rebasedemokey.pages.dev''),
      (''sub'', JStr sampleDID), (''exp'', JNum 100), (''nbf'', JNum 10)]"

definition epochCredentialPayload :: json where
  "epochCredentialPayload = JObj
     [(''iss'', JStr ''did:web:rebasedemokey.pages.dev''),
      (''sub'', JStr sampleDID), (''exp'', JNum 0)]"

definition sampleDocuments :: "(string \<times> json) list" where
  "sampleDocuments =
     [(''H'', sampleHeader), (''P'', sampleCompletePayload), (''E'', sampleEncryptPayload),
      (''C'', sampleCredentialHeader), (''V'', sampleCredentialPayload),
      (''Z'', epochCredentialPayload)]"

definition sampleStringify :: "json \<Rightarrow> string" where
  "sampleStringify j =
     (case find (\<lambda>d. snd d = j) sampleDocuments of Some d \<Rightarrow> fst d | None \<Rightarrow> ''null'')"

definition sampleParse :: "string \<Rightarrow> error + json" where
  "sampleParse s =
     (case map_of sampleDocuments s of
        Some j \<Rightarrow> Inr j
      | None \<Rightarrow> Inl (SyntaxError ''Unexpected token''))"

definition sampleRuntime :: runtime where
  "sampleRuntime = \<lparr>getAddress = sampleGetAddress, keccak256 = pad32, toUtf8Bytes = (\<lambda>s. s),
     signDigest = sampleSign, recoverAddress = sampleRecover,
     JSON_stringify = sampleStringify, JSON_parse = sampleParse,
     TextEncoder_encode = (\<lambda>s. s), TextDecoder_decode = (\<lambda>s. s)\<rparr>"

text \<open>
  A bundle as the encryption phase produces it, the same bundle marked as mock data, a
  wallet that is not the bundle's owner, and a Lit network on which every call succeeds.
\<close>

definition sampleEncrypted :: EncryptedData where
  "sampleEncrypted = \<lparr>ciphertext = ''c2VjcmV0'', dataToEncryptHash = ''2bb80d537b1da3e38bd30361aa855686bde0eacd7162fef6a25fe97bf527a25b'',
     accessControlConditions = JArr [], accsResourceString = ''lit-accesscontrolcondition://sample'',
     credentialRequirements = reqAlice, userSignedJWT = ''stored.user.token'',
     userAddress = sampleAddress, metadata = None\<rparr>"

definition mockEncrypted :: EncryptedData where
  "mockEncrypted = \<lparr>ciphertext = ''aGVsbG8='', dataToEncryptHash = [],
     accessControlConditions = JArr [], accsResourceString = [],
     credentialRequirements = reqAlice, userSignedJWT = ''mock.jwt.token'',
     userAddress = sampleAddress, metadata = Some \<lparr>mock = Some True\<rparr>\<rparr>"

definition otherWallet :: Wallet where
  "otherWallet = \<lparr>wallet_address = ''0x1111111111111111111111111111111111111111'',
     privateKey = ''other-private-key''\<rparr>"

definition sampleLit :: litSDK where
  "sampleLit = \<lparr>nodeConnect = None, contractsConnect = None,
     mintCapacityCreditsNFT = Inr ''1'',
     createCapacityDelegationAuthSig = (\<lambda>tokenId. Inr ''capacity-delegation''),
     getSessionSigs = (\<lambda>authSig resource. Inr ''session-sigs''),
     executeJs = (\<lambda>sigs params. Inr (JObj [(''response'', JObj [(''success'', JBool True)])]))\<rparr>"

text \<open>
  The surroundings of the Lit Action in the examples: the issuer's document with one
  Ed25519 key, a signature check that accepts, and a decryption that answers. The two
  credential tokens differ in their payload: one expires at second 100 and is not valid
  before second 10, the other carries \<^verbatim>\<open>exp: 0\<close>. The two user tokens are what the
  sample wallet signs at millisecond 5123, for \<^verbatim>\<open>encrypt\<close> and for \<^verbatim>\<open>decrypt\<close>.
\<close>

definition sampleDidDocument :: json where
  "sampleDidDocument = JObj
     [(''id'', JStr ''did:web:rebasedemokey.pages.dev''),
      (''verificationMethod'', JArr
         [JObj [(''id'', JStr ''did:web:rebasedemokey.pages.dev#controller''),
                (''type'', JStr ''Ed25519VerificationKey2018''),
                (''publicKeyJwk'', JObj [(''kty'', JStr ''OKP''), (''crv'', JStr ''Ed25519'')])]])]"

definition sampleWorld :: actionWorld where
  "sampleWorld = \<lparr>fetchUrl = (\<lambda>url. Inr \<lparr>resp_ok = True, resp_status = 200, resp_json = Inr sampleDidDocument\<rparr>),
     importKey = (\<lambda>jwk. Inr ''issuer-key''),
     ed25519Verify = (\<lambda>key sg data. Inr True),
     decryptAndCombine = (\<lambda>acc ct h. Inr ''secret''),
     dateGetTime = sampleGetTime,
     toISOString = (\<lambda>ms. Inr ''1970-01-01T00:00:05.000Z'')\<rparr>"

definition sampleCredentialToken :: string where
  "sampleCredentialToken = ''Qw.Vg.c2lnbmF0dXJl''"

definition epochCredentialToken :: string where
  "epochCredentialToken = ''Qw.Wg.c2lnbmF0dXJl''"

definition sampleEncryptToken :: string where
  "sampleEncryptToken =
     ''SA.RQ.c2FtcGxlLXByaXZhdGUta2V5AAAAAAAAAAAAAAAAAABTQS5SUQAAAAAAAAAAAAAAAAAAAAAAAAAAAAAAAAAAAA''"

definition sampleDecryptToken :: string where
  "sampleDecryptToken =
     ''SA.UA.c2FtcGxlLXByaXZhdGUta2V5AAAAAAAAAAAAAAAAAABTQS5VQQAAAAAAAAAAAAAAAAAAAAAAAAAAAAAAAAAAAA''"

definition sampleParams :: jsParams where
  "sampleParams = \<lparr>js_accessControlConditions = JArr [], js_ciphertext = ''c2VjcmV0'',
     js_dataToEncryptHash = ''2bb80d537b1da3e38bd30361aa855686bde0eacd7162fef6a25fe97bf527a25b'',
     js_credentialJWT = sampleCredentialToken,
     js_credentialRequirements = requirementsToJson reqAlice,
     js_userAddress = vectorAddress,
     js_userSignedJWT = sampleEncryptToken,
     js_operationPurpose = ''decrypt''\<rparr>"

section \<open>Properties\<close>

lemma includesStr_iff_sublist: "includesStr s sub \<longleftrightarrow> sublist sub s"
  by (induction s) (auto simp: sublist_Cons_right)

lemma find_unique_Some:
  assumes "c \<in> set xs" and "P c" and "\<forall>d \<in> set xs. P d \<longrightarrow> d = c"
  shows "find P xs = Some c"
proof (cases "find P xs")
  case None
  then have "\<not> P c" using assms(1) unfolding find_None_iff by blast
  with assms(2) show ?thesis by blast
next
  case (Some d)
  then have "P d \<and> d \<in> set xs" unfolding find_Some_iff by (metis nth_mem)
  then have "d = c" using assms(3) by blast
  with Some show ?thesis by blast
qed

lemma trim_empty_iff: "trim s = [] \<longleftrightarrow> (\<forall>c \<in> set s. isWhite c)"
proof -
  have a: "trim s = [] \<longleftrightarrow> (\<forall>c \<in> set (dropWhile isWhite s). isWhite c)"
    by (simp add: trim_def dropWhile_eq_Nil_conv)
  have b: "(\<forall>c \<in> set (dropWhile isWhite s). isWhite c) \<longleftrightarrow> dropWhile isWhite s = []"
    by (metis dropWhile_eq_Nil_conv dropWhile_idem)
  have c: "dropWhile isWhite s = [] \<longleftrightarrow> (\<forall>c \<in> set s. isWhite c)"
    by (simp add: dropWhile_eq_Nil_conv)
  show ?thesis using a b c by blast
qed

lemma invalidHandle_blank: "invalidHandle h = blankHandle h"
  by (cases h) (auto simp: trim_empty_iff list_all_iff)

lemma stringsOf_member: "h \<in> set (stringsOf vs) \<longleftrightarrow> JStr h \<in> set vs"
  by (induction vs rule: stringsOf.induct) auto

lemma acceptedValues_handleList: "h \<in> set (acceptedValues gh) \<longleftrightarrow> JStr h \<in> set (handleList gh)"
  by (cases gh) (auto simp: stringsOf_member)

lemma credMatches_matchSpec:
  assumes "ageClaim requirements = None"
  shows "credMatches getTime now requirements addr cred = matchSpec requirements addr cred"
  using assms
  unfolding credMatches_def matchSpec_def subjectContains_def handleAccepted_def
    handleClaim_def ageClaim_def
  by (auto simp: includesStr_iff_sublist acceptedValues_handleList split: option.splits)

lemma find_invalidHandle: "find invalidHandle (handleList gh) = None \<longleftrightarrow> \<not> anyBlankHandle (Some gh)"
  by (cases gh) (auto simp: find_None_iff invalidHandle_blank list_ex_iff)

subsection \<open>C6: the trust gate of \<^verbatim>\<open>validateGithubCredentialRequirements\<close>\<close>

text \<open>
  Claim C6. With the trust list configured as the two issuers
  \<^verbatim>\<open>did:web:rebasedemokey.pages.dev\<close> and \<^verbatim>\<open>did:web:issuer.tinycloud.xyz\<close>, however the
  setting spells them: a requirement whose issuer is not one of the two is rejected with
  the message \<^verbatim>\<open>Untrusted issuer: <issuer>. Trusted issuers: \<close> followed by the two
  trusted issuers; a requirement of a trusted issuer is rejected when its credential type
  is not exactly \<^verbatim>\<open>GitHubVerification\<close> or when one of the supplied handle values (the
  single value, or an element of the list) is empty, not a string, or white space only;
  and a requirement of a trusted issuer with that credential type and no such handle
  value is accepted.
\<close>

theorem validateGithubCredentialRequirements_trust_gate:
  assumes "getTrustedIssuers env = Inr trustedList"
  shows "(issuer req \<notin> set trustedList \<longrightarrow>
            validateGithubCredentialRequirements env req =
              Inl (Error (''Untrusted issuer: '' @ issuer req
                @ ''. Trusted issuers: did:web:rebasedemokey.pages.dev, did:web:issuer.tinycloud.xyz'')))
       \<and> (issuer req \<in> set trustedList \<and>
            (credentialType req \<noteq> ''GitHubVerification'' \<or> anyBlankHandle (handleClaim req))
            \<longrightarrow> isl (validateGithubCredentialRequirements env req))
       \<and> (issuer req \<in> set trustedList \<and> credentialType req = ''GitHubVerification'' \<and>
            \<not> anyBlankHandle (handleClaim req)
            \<longrightarrow> validateGithubCredentialRequirements env req = Inr ())"
proof -
  note ti = assms
  have untrusted: "issuer req \<notin> set trustedList \<Longrightarrow>
      validateGithubCredentialRequirements env req =
        Inl (Error (''Untrusted issuer: '' @ issuer req
                @ ''. Trusted issuers: did:web:rebasedemokey.pages.dev, did:web:issuer.tinycloud.xyz''))"
    by (simp add: validateGithubCredentialRequirements_def validateTrustedIssuer_def ti)
       (simp add: trustedList_def)
  have badtype: "issuer req \<in> set trustedList \<Longrightarrow> credentialType req \<noteq> ''GitHubVerification'' \<Longrightarrow>
      isl (validateGithubCredentialRequirements env req)"
    by (simp add: validateGithubCredentialRequirements_def validateTrustedIssuer_def ti)
  have badhandle: "isl (validateGithubCredentialRequirements env req)"
    if t: "issuer req \<in> set trustedList" and b: "anyBlankHandle (handleClaim req)"
  proof -
    from b obtain gh where gh: "handleClaim req = Some gh" by (cases "handleClaim req") auto
    with b have "find invalidHandle (handleList gh) \<noteq> None" by (simp add: find_invalidHandle)
    then obtain h where "find invalidHandle (handleList gh) = Some h" by blast
    with t gh show ?thesis
      by (simp add: validateGithubCredentialRequirements_def validateTrustedIssuer_def ti
          handleClaim_def)
  qed
  have good: "validateGithubCredentialRequirements env req = Inr ()"
    if t: "issuer req \<in> set trustedList" and ty: "credentialType req = ''GitHubVerification''"
      and nb: "\<not> anyBlankHandle (handleClaim req)"
  proof (cases "handleClaim req")
    case None
    with t ty show ?thesis
      by (simp add: validateGithubCredentialRequirements_def validateTrustedIssuer_def ti
          handleClaim_def)
  next
    case (Some gh)
    with nb have "find invalidHandle (handleList gh) = None" by (simp add: find_invalidHandle)
    with t ty Some show ?thesis
      by (simp add: validateGithubCredentialRequirements_def validateTrustedIssuer_def ti
          handleClaim_def)
  qed
  show ?thesis using untrusted badtype badhandle good by blast
qed

text \<open>
  The gate at work in a browser whose setting has spaces around the two issuers: the
  requirement with one handle and the requirement with three handles pass, a list with an
  element of white space only is refused, and the untrusted issuer is refused with the
  message that lists the trusted issuers.
\<close>

theorem validateGithubCredentialRequirements_trust_gate_witness:
  "getTrustedIssuers spacedEnv = Inr trustedList
   \<and> validateGithubCredentialRequirements spacedEnv reqAlice = Inr ()
   \<and> validateGithubCredentialRequirements spacedEnv reqHandles = Inr ()
   \<and> isl (validateGithubCredentialRequirements spacedEnv reqBlankElement)
   \<and> validateGithubCredentialRequirements spacedEnv reqUntrusted =
       Inl (Error ''Untrusted issuer: did:web:untrusted-issuer.com. Trusted issuers: did:web:rebasedemokey.pages.dev, did:web:issuer.tinycloud.xyz'')"
proof -
  have env: "getTrustedIssuers spacedEnv = Inr trustedList"
    by (simp add: getTrustedIssuers_def getEnv_def spacedEnv_def orDefault_def trim_def
        isWhite_def trustedList_def)
  have one: "issuer reqAlice \<in> set trustedList \<and> credentialType reqAlice = ''GitHubVerification'' \<and>
      \<not> anyBlankHandle (handleClaim reqAlice)"
    by (simp add: reqAlice_def trustedList_def handleClaim_def isWhite_def)
  have three: "issuer reqHandles \<in> set trustedList \<and> credentialType reqHandles = ''GitHubVerification'' \<and>
      \<not> anyBlankHandle (handleClaim reqHandles)"
    by (simp add: reqHandles_def trustedList_def handleClaim_def isWhite_def)
  have blank: "issuer reqBlankElement \<in> set trustedList \<and> anyBlankHandle (handleClaim reqBlankElement)"
    by (simp add: reqBlankElement_def trustedList_def handleClaim_def isWhite_def)
  have bad: "issuer reqUntrusted \<notin> set trustedList"
    by (simp add: reqUntrusted_def trustedList_def)
  from validateGithubCredentialRequirements_trust_gate [OF env, of reqAlice] one
  have a: "validateGithubCredentialRequirements spacedEnv reqAlice = Inr ()"
    by blast
  from validateGithubCredentialRequirements_trust_gate [OF env, of reqHandles] three
  have b: "validateGithubCredentialRequirements spacedEnv reqHandles = Inr ()"
    by blast
  from validateGithubCredentialRequirements_trust_gate [OF env, of reqBlankElement] blank
  have c: "isl (validateGithubCredentialRequirements spacedEnv reqBlankElement)"
    by blast
  from validateGithubCredentialRequirements_trust_gate [OF env, of reqUntrusted] bad
  have d: "validateGithubCredentialRequirements spacedEnv reqUntrusted =
       Inl (Error (''Untrusted issuer: '' @ issuer reqUntrusted
                @ ''. Trusted issuers: did:web:rebasedemokey.pages.dev, did:web:issuer.tinycloud.xyz''))"
    by blast
  from env a b c d show ?thesis by (simp add: reqUntrusted_def)
qed

subsection \<open>C7: \<^verbatim>\<open>findMatchingCredential\<close> returns the first match\<close>

text \<open>
  Claim C7, as stated, lists three predicates (the issuer, the address in the subject
  identifier, the handle among the accepted values) and says that the first credential
  satisfying them is returned, for every requirement and address. Four inputs on which the
  callback and the three predicates part: a requirement with a \<^verbatim>\<open>minIssuanceAge\<close>, where
  the callback has a fourth test and passes over a credential that satisfies the three;
  a handle claim that is the empty string, which the callback does not take as specified,
  so that a credential with another handle is returned; a credential whose handle is the
  empty string, which the callback refuses although the list of accepted values has the
  empty string; and a subject identifier that is the empty string, which the callback
  refuses although it contains the empty address.
\<close>

theorem findMatchingCredential_claimed_counterexample:
  "(claimedMatch reqAged sampleAddress credAlice
    \<and> findMatchingCredential sampleGetTime 1704067320000 [credAlice] reqAged sampleAddress = None)
   \<and> (\<not> claimedMatch
          (reqAlice\<lparr>claims := Some \<lparr>githubHandle = Some (JStr []), minIssuanceAge = None,
                                      requiredEvidence = None\<rparr>\<rparr>) sampleAddress credBob
      \<and> findMatchingCredential sampleGetTime 1704067210000 [credBob]
          (reqAlice\<lparr>claims := Some \<lparr>githubHandle = Some (JStr []), minIssuanceAge = None,
                                      requiredEvidence = None\<rparr>\<rparr>) sampleAddress = Some credBob)
   \<and> (claimedMatch
          (reqAlice\<lparr>claims := Some \<lparr>githubHandle = Some (JArr [JStr []]), minIssuanceAge = None,
                                      requiredEvidence = None\<rparr>\<rparr>) sampleAddress
          (credAlice\<lparr>handle := Some []\<rparr>)
      \<and> findMatchingCredential sampleGetTime 1704067210000 [credAlice\<lparr>handle := Some []\<rparr>]
          (reqAlice\<lparr>claims := Some \<lparr>githubHandle = Some (JArr [JStr []]), minIssuanceAge = None,
                                      requiredEvidence = None\<rparr>\<rparr>) sampleAddress = None)
   \<and> (claimedMatch reqAlice [] (credAlice\<lparr>credentialSubject := Some \<lparr>subj_id = Some []\<rparr>\<rparr>)
      \<and> findMatchingCredential sampleGetTime 1704067210000
          [credAlice\<lparr>credentialSubject := Some \<lparr>subj_id = Some []\<rparr>\<rparr>] reqAlice [] = None)"
  by code_simp

text \<open>
  Claim C7, amended. For every credential pool, every requirement that specifies no
  minimum issuance age and every user address, \<^verbatim>\<open>findMatchingCredential\<close> returns the
  first credential in input order that satisfies all of: its issuer equals the
  requirement's issuer; its \<^verbatim>\<open>credentialSubject.id\<close> is present, not empty and contains
  the lowercased user address; and, when a handle claim is specified and truthy (a string
  is truthy unless it is empty, a list always), its handle is not empty and is among the
  accepted values (the claim when it is a string, its elements when it is a list). It
  returns none when the address check fails for every credential, and a credential that
  is the only one of the pool to satisfy the predicates is the one returned.
\<close>

theorem findMatchingCredential_first_match:
  assumes "ageClaim req = None"
  shows "(findMatchingCredential getTime now creds req addr = Some c \<longleftrightarrow>
            (\<exists>i<length creds. creds ! i = c \<and> matchSpec req addr c \<and>
                (\<forall>j<i. \<not> matchSpec req addr (creds ! j))))
       \<and> ((\<forall>d \<in> set creds. \<not> subjectContains addr d) \<longrightarrow>
             findMatchingCredential getTime now creds req addr = None)
       \<and> (c \<in> set creds \<and> matchSpec req addr c \<and>
            (\<forall>d \<in> set creds. matchSpec req addr d \<longrightarrow> d = c) \<longrightarrow>
             findMatchingCredential getTime now creds req addr = Some c)"
proof -
  let ?P = "matchSpec req addr"
  have eq: "findMatchingCredential getTime now creds req addr = find ?P creds"
    unfolding findMatchingCredential_def
    by (rule arg_cong [where f = "\<lambda>p. find p creds"])
       (rule ext, rule credMatches_matchSpec [OF assms])
  have first: "find ?P creds = Some c \<longleftrightarrow>
      (\<exists>i<length creds. creds ! i = c \<and> ?P c \<and> (\<forall>j<i. \<not> ?P (creds ! j)))"
    by (auto simp: find_Some_iff)
  have none: "(\<forall>d \<in> set creds. \<not> subjectContains addr d) \<Longrightarrow> find ?P creds = None"
    by (auto simp: find_None_iff matchSpec_def)
  have uniq: "c \<in> set creds \<Longrightarrow> ?P c \<Longrightarrow> (\<forall>d \<in> set creds. ?P d \<longrightarrow> d = c) \<Longrightarrow> find ?P creds = Some c"
    by (rule find_unique_Some)
  show ?thesis unfolding eq using first none uniq by blast
qed

text \<open>
  A pool of three and the requirement with a list of three handles: one credential with a
  handle that is not in the list, the matching one, and one bound to another address. The
  matching one is the only one to satisfy the predicates, and it is returned.
\<close>

theorem findMatchingCredential_first_match_witness:
  "ageClaim reqHandles = None
   \<and> matchSpec reqHandles sampleAddress credAlice
   \<and> \<not> matchSpec reqHandles sampleAddress credBob
   \<and> \<not> matchSpec reqHandles sampleAddress credElsewhere
   \<and> findMatchingCredential sampleGetTime 1704067210000 [credBob, credAlice, credElsewhere]
        reqHandles sampleAddress = Some credAlice"
proof -
  have n: "ageClaim reqHandles = None"
    by (simp add: ageClaim_def reqHandles_def)
  have a: "matchSpec reqHandles sampleAddress credAlice"
    by code_simp
  have b: "\<not> matchSpec reqHandles sampleAddress credBob"
    by code_simp
  have c: "\<not> matchSpec reqHandles sampleAddress credElsewhere"
    by code_simp
  have "credAlice \<in> set [credBob, credAlice, credElsewhere] \<and>
      matchSpec reqHandles sampleAddress credAlice \<and>
      (\<forall>d \<in> set [credBob, credAlice, credElsewhere].
          matchSpec reqHandles sampleAddress d \<longrightarrow> d = credAlice)"
    using a b c by simp
  with findMatchingCredential_first_match
    [OF n, of sampleGetTime 1704067210000 "[credBob, credAlice, credElsewhere]" sampleAddress credAlice]
  have "findMatchingCredential sampleGetTime 1704067210000 [credBob, credAlice, credElsewhere]
        reqHandles sampleAddress = Some credAlice"
    by blast
  with n a b c show ?thesis by simp
qed

subsection \<open>C5: the issuance-age test of the matcher\<close>

text \<open>
  Claim C5 says that under a \<^verbatim>\<open>minIssuanceAge\<close> only credentials that are at least that
  many seconds old are returned. The callback computes
  \<^verbatim>\<open>minTime = Date.now() - minIssuanceAge * 1000\<close> and returns \<^verbatim>\<open>false\<close> when
  \<^verbatim>\<open>issuanceTime < minTime\<close>: it compares the other way round. Under a non-zero
  \<^verbatim>\<open>minIssuanceAge\<close> and for a readable issuance date, a credential that is older than
  the minimum, and so has the age the specification asks for, is never the result; and a
  credential that is younger than the minimum, which the specification refuses, is
  returned whenever it passes the other tests of the callback.
\<close>

theorem findMatchingCredential_minimum_age_inverted:
  assumes "claims req = Some cl" and "minIssuanceAge cl = Some age" and "age \<noteq> 0"
    and "getTime (issuanceDate c) = Some t"
  shows "(age * 1000 < now - t \<longrightarrow>
            minimumAgeReached getTime now req c
            \<and> findMatchingCredential getTime now creds req addr \<noteq> Some c)
       \<and> (now - t < age * 1000
            \<and> credMatches getTime now (req\<lparr>claims := Some (cl\<lparr>minIssuanceAge := None\<rparr>)\<rparr>) addr c \<longrightarrow>
            \<not> minimumAgeReached getTime now req c
            \<and> findMatchingCredential getTime now [c] req addr = Some c)"
proof -
  have cb: "credMatches getTime now req addr c \<longleftrightarrow>
            credMatches getTime now (req\<lparr>claims := Some (cl\<lparr>minIssuanceAge := None\<rparr>)\<rparr>) addr c
            \<and> now - t \<le> age * 1000"
    using assms by (auto simp: credMatches_def split: option.splits)
  have found: "findMatchingCredential getTime now creds req addr = Some c \<Longrightarrow>
      credMatches getTime now req addr c"
    by (auto simp: findMatchingCredential_def find_Some_iff)
  have reached: "minimumAgeReached getTime now req c \<longleftrightarrow> age * 1000 \<le> now - t"
    using assms by (simp add: minimumAgeReached_def ageClaim_def)
  have old: "age * 1000 < now - t \<Longrightarrow>
      minimumAgeReached getTime now req c
      \<and> findMatchingCredential getTime now creds req addr \<noteq> Some c"
    using cb found reached by auto
  have young: "now - t < age * 1000 \<Longrightarrow>
      credMatches getTime now (req\<lparr>claims := Some (cl\<lparr>minIssuanceAge := None\<rparr>)\<rparr>) addr c \<Longrightarrow>
      \<not> minimumAgeReached getTime now req c
      \<and> findMatchingCredential getTime now [c] req addr = Some c"
    using cb reached by (simp add: findMatchingCredential_def)
  from old young show ?thesis by blast
qed

text \<open>
  The requirement with a \<^verbatim>\<open>minIssuanceAge\<close> of 60 seconds and the credential of the
  samples: 120 seconds after its issuance it is not the result, and 10 seconds after its
  issuance it is.
\<close>

theorem findMatchingCredential_minimum_age_inverted_witness:
  "claims reqAged = Some \<lparr>githubHandle = Some (JStr ''alice''), minIssuanceAge = Some 60, requiredEvidence = None\<rparr>
   \<and> sampleGetTime (issuanceDate credAlice) = Some 1704067200000
   \<and> (60::int) * 1000 < 1704067320000 - 1704067200000
   \<and> minimumAgeReached sampleGetTime 1704067320000 reqAged credAlice
   \<and> findMatchingCredential sampleGetTime 1704067320000 [credAlice] reqAged sampleAddress \<noteq> Some credAlice
   \<and> 1704067210000 - 1704067200000 < (60::int) * 1000
   \<and> \<not> minimumAgeReached sampleGetTime 1704067210000 reqAged credAlice
   \<and> findMatchingCredential sampleGetTime 1704067210000 [credAlice] reqAged sampleAddress = Some credAlice"
proof -
  let ?cl = "\<lparr>githubHandle = Some (JStr ''alice''), minIssuanceAge = Some 60, requiredEvidence = None\<rparr>"
  have a: "claims reqAged = Some ?cl"
    by (simp add: reqAged_def)
  have b: "minIssuanceAge ?cl = Some 60"
    by simp
  have c: "sampleGetTime (issuanceDate credAlice) = Some 1704067200000"
    by (simp add: sampleGetTime_def credAlice_def)
  have d: "(60::int) \<noteq> 0" by simp
  have o: "(60::int) * 1000 < 1704067320000 - 1704067200000" by simp
  have y: "1704067210000 - 1704067200000 < (60::int) * 1000" by simp
  have rest: "credMatches sampleGetTime 1704067210000
      (reqAged\<lparr>claims := Some (?cl\<lparr>minIssuanceAge := None\<rparr>)\<rparr>) sampleAddress credAlice"
    by code_simp
  from findMatchingCredential_minimum_age_inverted
    [where req = reqAged and age = 60 and getTime = sampleGetTime and c = credAlice
       and t = 1704067200000 and now = 1704067320000 and addr = sampleAddress
       and creds = "[credAlice]", OF a b d c] o
  have old: "minimumAgeReached sampleGetTime 1704067320000 reqAged credAlice
      \<and> findMatchingCredential sampleGetTime 1704067320000 [credAlice] reqAged sampleAddress \<noteq> Some credAlice"
    by blast
  from findMatchingCredential_minimum_age_inverted
    [where req = reqAged and age = 60 and getTime = sampleGetTime and c = credAlice
       and t = 1704067200000 and now = 1704067210000 and addr = sampleAddress, OF a b d c] y rest
  have young: "\<not> minimumAgeReached sampleGetTime 1704067210000 reqAged credAlice
      \<and> findMatchingCredential sampleGetTime 1704067210000 [credAlice] reqAged sampleAddress = Some credAlice"
    by blast
  from a c o y old young show ?thesis by blast
qed


subsection \<open>C9: \<^verbatim>\<open>parseDIDPKH\<close> after \<^verbatim>\<open>createDIDPKH\<close>\<close>

lemma isDigit_digitChar: "d < 10 \<Longrightarrow> isDigit (digitChar d)"
  by (simp add: isDigit_def digitChar_def)

lemma digitVal_digitChar: "d < 10 \<Longrightarrow> digitVal (digitChar d) = d"
  by (simp add: digitVal_def digitChar_def)

lemma showNat_digits: "list_all isDigit (showNat n)"
proof (induction n rule: showNat.induct)
  case (1 n)
  show ?case
  proof (cases "n < 10")
    case True
    then show ?thesis by (subst showNat.simps) (simp add: isDigit_digitChar)
  next
    case False
    with 1 show ?thesis by (subst showNat.simps) (simp add: isDigit_digitChar)
  qed
qed

lemma showNat_nonempty: "showNat n \<noteq> []"
  by (subst showNat.simps) simp

lemma foldl_digits_showNat:
  "foldl (\<lambda>acc c. acc * 10 + digitVal c) 0 (showNat n) = n"
proof (induction n rule: showNat.induct)
  case (1 n)
  show ?case
  proof (cases "n < 10")
    case True
    then show ?thesis by (subst showNat.simps) (simp add: digitVal_digitChar)
  next
    case False
    with 1 show ?thesis by (subst showNat.simps) (simp add: digitVal_digitChar)
  qed
qed

lemma parseInt_numberToString: "0 \<le> c \<Longrightarrow> parseInt (numberToString c) = c"
  by (simp add: parseInt_def numberToString_def foldl_digits_showNat)

lemma takeWhile_digits:
  "list_all isDigit ds \<Longrightarrow> \<not> isDigit x \<Longrightarrow> takeWhile isDigit (ds @ x # r) = ds"
  by (induction ds) auto

lemma dropWhile_digits:
  "list_all isDigit ds \<Longrightarrow> \<not> isDigit x \<Longrightarrow> dropWhile isDigit (ds @ x # r) = x # r"
  by (induction ds) auto

lemma isHexAddress_split:
  "isHexAddress r \<Longrightarrow> \<exists>h. r = ''0x'' @ h \<and> length h = 40 \<and> list_all isHexChar h"
proof -
  assume a: "isHexAddress r"
  then have "r = take 2 r @ drop 2 r" by simp
  with a have "r = ''0x'' @ drop 2 r" by (simp add: isHexAddress_def)
  moreover from a have "length (drop 2 r) = 40" "list_all isHexChar (drop 2 r)"
    by (simp_all add: isHexAddress_def)
  ultimately show ?thesis by blast
qed

lemma matchDidPattern_build:
  assumes "0 \<le> c" and "length h = 40" and "list_all isHexChar h"
  shows "matchDidPattern (''did:pkh:eip155:'' @ numberToString c @ '':'' @ ''0x'' @ h)
           = Some (numberToString c, ''0x'' @ h)"
proof -
  have ds: "list_all isDigit (numberToString c)" "numberToString c \<noteq> []"
    using assms(1) by (simp_all add: numberToString_def showNat_digits showNat_nonempty)
  have nd: "\<not> isDigit CHR '':''" by (simp add: isDigit_def)
  have tw: "takeWhile isDigit (numberToString c @ CHR '':'' # (''0x'' @ h)) = numberToString c"
    by (rule takeWhile_digits [OF ds(1) nd])
  have dw: "dropWhile isDigit (numberToString c @ CHR '':'' # (''0x'' @ h)) = CHR '':'' # (''0x'' @ h)"
    by (rule dropWhile_digits [OF ds(1) nd])
  show ?thesis
    using ds(2) assms(2,3) tw dw by (simp add: matchDidPattern_def)
qed


lemma sample_contract: "addressContract sampleRuntime"
  unfolding addressContract_def sampleRuntime_def sampleGetAddress_def
  by (auto simp: isHexAddress_def vectorAddress_def isHexChar_def split: if_splits)

lemma matchDidPattern_minus:
  "matchDidPattern (''did:pkh:eip155:'' @ CHR ''-'' # x) = None"
  by (simp add: matchDidPattern_def isDigit_def)

text \<open>
  Whatever \<^verbatim>\<open>getAddress\<close> is, the identifier \<^verbatim>\<open>createDIDPKH\<close> builds for a negative chain
  id is refused by \<^verbatim>\<open>parseDIDPKH\<close>: the minus sign is no digit of the pattern.
\<close>

lemma parseDIDPKH_negative_chain:
  assumes "c < 0" and "createDIDPKH rt a c = Inr d"
  shows "parseDIDPKH rt d = Inl (Error (''Invalid DID:PKH format: '' @ d))"
proof -
  from assms obtain ca where "d = ''did:pkh:eip155:'' @ CHR ''-'' # (showNat (nat (- c)) @ '':'' @ ca)"
    by (auto simp: createDIDPKH_def numberToString_def split: if_splits sum.splits)
  then show ?thesis
    using matchDidPattern_minus [of "showNat (nat (- c)) @ '':'' @ ca"]
    by (simp add: parseDIDPKH_def)
qed

text \<open>
  Claim C9, as stated, quantifies over every chain id; \<^verbatim>\<open>createDIDPKH\<close> takes any number
  and does not check it. For the chain id \<open>-1\<close> and a well-formed address it returns an
  identifier, and \<^verbatim>\<open>parseDIDPKH\<close> throws on that identifier.
\<close>

theorem parseDIDPKH_createDIDPKH_counterexample:
  "isAddress sampleRuntime vectorAddress
   \<and> createDIDPKH sampleRuntime vectorAddress (- 1) =
       Inr ''did:pkh:eip155:-1:0x5aAeb6053F3E94C9b9A09f33669435E7Ef1BeAed''
   \<and> parseDIDPKH sampleRuntime ''did:pkh:eip155:-1:0x5aAeb6053F3E94C9b9A09f33669435E7Ef1BeAed'' =
       Inl (Error ''Invalid DID:PKH format: did:pkh:eip155:-1:0x5aAeb6053F3E94C9b9A09f33669435E7Ef1BeAed'')"
  by code_simp

text \<open>
  Claim C9, amended. Let \<^verbatim>\<open>getAddress\<close> keep its contract (a result is \<^verbatim>\<open>0x\<close> and
  forty hexadecimal digits, and is its own checksummed form). For every address \<open>a\<close>
  that \<^verbatim>\<open>isAddress\<close> accepts, in any accepted casing, and every chain id \<open>c\<close> that is a
  non-negative safe integer, \<^verbatim>\<open>createDIDPKH(a, c)\<close> returns
  \<^verbatim>\<open>did:pkh:eip155:<c>:<checksummed a>\<close>, and \<^verbatim>\<open>parseDIDPKH\<close> of it succeeds with the
  checksummed form of \<open>a\<close> as address and \<open>c\<close> as chain id.
\<close>

theorem parseDIDPKH_createDIDPKH:
  assumes "addressContract rt" and "isAddress rt a" and "0 \<le> c" and "c < 2 ^ 53"
  shows "\<exists>ca. getAddress rt a = Inr ca
           \<and> createDIDPKH rt a c = Inr (''did:pkh:eip155:'' @ numberToString c @ '':'' @ ca)
           \<and> parseDIDPKH rt (''did:pkh:eip155:'' @ numberToString c @ '':'' @ ca) =
               Inr \<lparr>did = ''did:pkh:eip155:'' @ numberToString c @ '':'' @ ca,
                     address = ca, chainId = c\<rparr>"
proof -
  from assms(2) obtain ca where ca: "getAddress rt a = Inr ca"
    by (auto simp: isAddress_def split: sum.splits)
  with assms(1) have hex: "isHexAddress ca" and idem: "getAddress rt ca = Inr ca"
    unfolding addressContract_def by blast+
  from hex obtain h where h: "ca = ''0x'' @ h" "length h = 40" "list_all isHexChar h"
    using isHexAddress_split by blast
  have created: "createDIDPKH rt a c = Inr (''did:pkh:eip155:'' @ numberToString c @ '':'' @ ca)"
    using assms(2) ca by (simp add: createDIDPKH_def)
  have matched: "matchDidPattern (''did:pkh:eip155:'' @ numberToString c @ '':'' @ ca)
      = Some (numberToString c, ca)"
    using matchDidPattern_build [OF assms(3) h(2) h(3)] h(1) by simp
  have "isAddress rt ca"
    using idem by (simp add: isAddress_def)
  then have parsed: "parseDIDPKH rt (''did:pkh:eip155:'' @ numberToString c @ '':'' @ ca) =
               Inr \<lparr>did = ''did:pkh:eip155:'' @ numberToString c @ '':'' @ ca,
                     address = ca, chainId = c\<rparr>"
    using matched idem parseInt_numberToString [OF assms(3)] by (simp add: parseDIDPKH_def)
  from ca created parsed show ?thesis by blast
qed

text \<open>
  The lower-case spelling of the EIP-55 test vector on chain 137: the identifier carries
  the checksummed spelling, and parsing gives it back with the chain id.
\<close>

theorem parseDIDPKH_createDIDPKH_witness:
  "addressContract sampleRuntime
   \<and> isAddress sampleRuntime ''0x5aaeb6053f3e94c9b9a09f33669435e7ef1beaed''
   \<and> (\<exists>ca. getAddress sampleRuntime ''0x5aaeb6053f3e94c9b9a09f33669435e7ef1beaed'' = Inr ca
         \<and> createDIDPKH sampleRuntime ''0x5aaeb6053f3e94c9b9a09f33669435e7ef1beaed'' 137 =
             Inr (''did:pkh:eip155:'' @ numberToString 137 @ '':'' @ ca)
         \<and> parseDIDPKH sampleRuntime (''did:pkh:eip155:'' @ numberToString 137 @ '':'' @ ca) =
             Inr \<lparr>did = ''did:pkh:eip155:'' @ numberToString 137 @ '':'' @ ca,
                   address = ca, chainId = 137\<rparr>)"
proof -
  have a: "isAddress sampleRuntime ''0x5aaeb6053f3e94c9b9a09f33669435e7ef1beaed''"
    by (simp add: isAddress_def sampleRuntime_def sampleGetAddress_def)
  have b: "(0::int) \<le> 137" and c: "(137::int) < 2 ^ 53"
    by simp_all
  from parseDIDPKH_createDIDPKH [OF sample_contract a b c] sample_contract a
  show ?thesis by blast
qed


subsection \<open>C3: mock data in the credentials-only flow\<close>

text \<open>
  Claim C3. When the bundle's \<^verbatim>\<open>userSignedJWT\<close> is the string \<^verbatim>\<open>mock.jwt.token\<close> or its
  \<^verbatim>\<open>metadata.mock\<close> is truthy, the credentials-only \<^verbatim>\<open>decryptFromCredentialsWithJWT\<close>
  returns \<^verbatim>\<open>{response: {success: true, secret: atob(ciphertext)}}\<close>, whatever the pool of
  credentials, the requirement and the addresses are, with no warning and no credential
  matching on the way; it returns \<^verbatim>\<open>success: false\<close> exactly when the base64 decoding of
  the ciphertext fails.
\<close>

theorem decryptFromCredentialsWithJWT_credentials_mock:
  assumes "userSignedJWT ed = ''mock.jwt.token''
           \<or> (\<exists>m. metadata ed = Some m \<and> mock m = Some True)"
  shows "decryptFromCredentialsWithJWT_credentials getTime now ed creds ua =
           ([], Inr (case atob (ciphertext ed) of
                       Some secret \<Rightarrow> Success secret
                     | None \<Rightarrow> Failure ''Failed to decode mock encrypted content''))
         \<and> (snd (decryptFromCredentialsWithJWT_credentials getTime now ed creds ua)
                = Inr (Failure ''Failed to decode mock encrypted content'')
              \<longleftrightarrow> atob (ciphertext ed) = None)"
proof -
  from assms have m: "isMockData ed"
    by (auto simp: isMockData_def)
  then show ?thesis
    by (cases "atob (ciphertext ed)") (simp_all add: decryptFromCredentialsWithJWT_credentials_def)
qed

text \<open>The mock bundle of the samples decodes to its content.\<close>

theorem decryptFromCredentialsWithJWT_credentials_mock_witness:
  "userSignedJWT mockEncrypted = ''mock.jwt.token''
   \<and> decryptFromCredentialsWithJWT_credentials sampleGetTime 1704067210000 mockEncrypted [] None
        = ([], Inr (Success ''hello''))"
proof -
  have a: "userSignedJWT mockEncrypted = ''mock.jwt.token''
           \<or> (\<exists>m. metadata mockEncrypted = Some m \<and> mock m = Some True)"
    by (simp add: mockEncrypted_def)
  have b: "atob (ciphertext mockEncrypted) = Some ''hello''"
    by code_simp
  from decryptFromCredentialsWithJWT_credentials_mock [OF a, of sampleGetTime 1704067210000 "[]" None] b
  show ?thesis by (simp add: mockEncrypted_def)
qed

subsection \<open>C10: real data in the credentials-only flow\<close>

text \<open>
  Claim C10. For every input that is not mock data (\<^verbatim>\<open>metadata.mock\<close> not truthy and
  \<^verbatim>\<open>userSignedJWT\<close> not \<^verbatim>\<open>mock.jwt.token\<close>), the credentials-only
  \<^verbatim>\<open>decryptFromCredentialsWithJWT\<close> always throws and never returns: the
  no-matching-credential error when no credential of the pool matches the requirement,
  and the ``Real Lit Protocol decryption requires wallet operations'' error when one
  does. A supplied \<^verbatim>\<open>userAddress\<close> that differs from the bundle's only adds a warning:
  the credential matching still takes place, for the supplied address.
\<close>

theorem decryptFromCredentialsWithJWT_credentials_real:
  assumes "userSignedJWT ed \<noteq> ''mock.jwt.token''"
    and "\<not> (\<exists>m. metadata ed = Some m \<and> mock m = Some True)"
  shows "(\<exists>e. snd (decryptFromCredentialsWithJWT_credentials getTime now ed creds ua) = Inl e)
       \<and> snd (decryptFromCredentialsWithJWT_credentials getTime now ed creds ua) =
           (if findMatchingCredential getTime now creds (credentialRequirements ed)
                 (if falsyStr ua then userAddress ed else the ua) = None
            then Inl (Error ''No matching credential found for the specified requirements'')
            else Inl (Error ''Real Lit Protocol decryption requires wallet operations. This browser package is designed for credentials-only decryption. Please use mock encrypted content for testing.''))
       \<and> fst (decryptFromCredentialsWithJWT_credentials getTime now ed creds ua) =
           (if \<not> falsyStr ua \<and> toLowerCase (the ua) \<noteq> toLowerCase (userAddress ed)
            then [ConsoleWarn ''User address mismatch - proceeding with credential verification'',
                  CredentialMatching]
            else [CredentialMatching])"
proof -
  from assms have m: "\<not> isMockData ed"
    by (auto simp: isMockData_def split: option.splits)
  show ?thesis
  proof (cases "findMatchingCredential getTime now creds (credentialRequirements ed)
                 (if falsyStr ua then userAddress ed else the ua)")
    case None
    with m show ?thesis
      by (simp add: decryptFromCredentialsWithJWT_credentials_def loadCredentials_def Let_def)
  next
    case (Some c)
    with m show ?thesis
      by (simp add: decryptFromCredentialsWithJWT_credentials_def loadCredentials_def Let_def)
  qed
qed

text \<open>
  The bundle of the samples with a pool that holds the matching credential, called with
  the bundle's address in another spelling and with an address that is not the bundle's:
  both runs throw.
\<close>

theorem decryptFromCredentialsWithJWT_credentials_real_witness:
  "userSignedJWT sampleEncrypted \<noteq> ''mock.jwt.token''
   \<and> metadata sampleEncrypted = None
   \<and> (\<exists>e. snd (decryptFromCredentialsWithJWT_credentials sampleGetTime 1704067210000
                 sampleEncrypted [credAlice] (Some ''0x1111111111111111111111111111111111111111'')) = Inl e)"
proof -
  have a: "userSignedJWT sampleEncrypted \<noteq> ''mock.jwt.token''"
    by (simp add: sampleEncrypted_def)
  have n: "metadata sampleEncrypted = None"
    by (simp add: sampleEncrypted_def)
  then have b: "\<not> (\<exists>m. metadata sampleEncrypted = Some m \<and> mock m = Some True)"
    by simp
  from decryptFromCredentialsWithJWT_credentials_real [OF a b, of sampleGetTime 1704067210000
      "[credAlice]" "Some ''0x1111111111111111111111111111111111111111''"] a n
  show ?thesis by blast
qed

subsection \<open>C2: the address check of the wallet-based flow\<close>

text \<open>
  Claim C2. For every bundle and every acting wallet whose address differs,
  case-insensitively, from the bundle's \<^verbatim>\<open>userAddress\<close>, the wallet-based
  \<^verbatim>\<open>decryptFromCredentialsWithJWT\<close> throws the address-mismatch error and does nothing
  else: no decryption token is minted, no credential is matched, the Lit network is not
  contacted and the Lit Action is not executed.
\<close>

theorem decryptFromCredentialsWithJWT_wallet_address_mismatch:
  assumes "toLowerCase (wallet_address w) \<noteq> toLowerCase (userAddress ed)"
  shows "decryptFromCredentialsWithJWT_wallet rt env lit getTime nowMs randomBytes ed w creds =
           ([], Inl (Error ''User wallet does not match the encrypted data owner''))
         \<and> MintDecryptionJWT \<notin> set (fst (decryptFromCredentialsWithJWT_wallet rt env lit getTime nowMs randomBytes ed w creds))
         \<and> CredentialMatching \<notin> set (fst (decryptFromCredentialsWithJWT_wallet rt env lit getTime nowMs randomBytes ed w creds))
         \<and> ExecuteLitAction \<notin> set (fst (decryptFromCredentialsWithJWT_wallet rt env lit getTime nowMs randomBytes ed w creds))"
  using assms by (simp add: decryptFromCredentialsWithJWT_wallet_def)

text \<open>
  A wallet that is not the owner of the sample bundle, on a network where every call
  would succeed and with the matching credential in the pool: the run ends at the check.
\<close>

theorem decryptFromCredentialsWithJWT_wallet_address_mismatch_witness:
  "toLowerCase (wallet_address otherWallet) \<noteq> toLowerCase (userAddress sampleEncrypted)
   \<and> decryptFromCredentialsWithJWT_wallet sampleRuntime browserEnv sampleLit sampleGetTime 5123
        sampleRandomBytes sampleEncrypted otherWallet [credAlice] =
        ([], Inl (Error ''User wallet does not match the encrypted data owner''))"
proof -
  have a: "toLowerCase (wallet_address otherWallet) \<noteq> toLowerCase (userAddress sampleEncrypted)"
    by code_simp
  from decryptFromCredentialsWithJWT_wallet_address_mismatch [OF a] a
  show ?thesis by blast
qed


subsection \<open>C8: purpose binding in the Lit Action\<close>

text \<open>
  Claim C8. In every run of the enhanced Lit Action in which the user token verifies and
  its \<^verbatim>\<open>payload.purpose\<close> differs from the \<^verbatim>\<open>operationPurpose\<close> parameter, the
  purpose-mismatch error is raised (the action reports it as its failure response) and
  \<^verbatim>\<open>Lit.Actions.decryptAndCombine\<close> is not invoked.
\<close>

theorem litActionCodeWithES256K_purpose_mismatch:
  assumes "verifyES256KJWT_action rt nowMs (js_userSignedJWT params) (js_userAddress params) = Inr verified"
    and "propOf (vr_payload verified) ''purpose'' \<noteq> Some (JStr (js_operationPurpose params))"
  shows "snd (litActionCodeWithES256K rt world nowMs params) =
           failed (Error (''JWT purpose mismatch. Expected: '' @ js_operationPurpose params
                           @ '', Got: '' @ templateStrOpt (propOf (vr_payload verified) ''purpose'')))
         \<and> DecryptAndCombine \<notin> set (fst (litActionCodeWithES256K rt world nowMs params))"
  using assms by (simp add: litActionCodeWithES256K_def)

text \<open>
  A token minted for \<^verbatim>\<open>encrypt\<close> by the sample wallet, presented with the operation
  purpose \<^verbatim>\<open>decrypt\<close> before its expiry: the token verifies, the action answers with the
  mismatch and does not decrypt.
\<close>

theorem litActionCodeWithES256K_purpose_mismatch_witness:
  "propOf sampleEncryptPayload ''purpose'' = Some (JStr ''encrypt'')
   \<and> js_operationPurpose sampleParams = ''decrypt''
   \<and> snd (litActionCodeWithES256K sampleRuntime sampleWorld 100000 sampleParams) =
        LitFailure ''JWT purpose mismatch. Expected: decrypt, Got: encrypt'' ''decryption_error''
   \<and> DecryptAndCombine \<notin> set (fst (litActionCodeWithES256K sampleRuntime sampleWorld 100000 sampleParams))"
proof -
  have v: "verifyES256KJWT_action sampleRuntime 100000 (js_userSignedJWT sampleParams)
             (js_userAddress sampleParams)
           = Inr \<lparr>vr_header = sampleHeader, vr_payload = sampleEncryptPayload, valid = True\<rparr>"
    by code_simp
  have p: "propOf sampleEncryptPayload ''purpose'' = Some (JStr ''encrypt'')"
    by code_simp
  have o: "js_operationPurpose sampleParams = ''decrypt''"
    by (simp add: sampleParams_def)
  have d: "propOf (vr_payload \<lparr>vr_header = sampleHeader, vr_payload = sampleEncryptPayload, valid = True\<rparr>)
             ''purpose'' \<noteq> Some (JStr (js_operationPurpose sampleParams))"
    using p o by simp
  have m: "failed (Error (''JWT purpose mismatch. Expected: '' @ ''decrypt''
                           @ '', Got: '' @ templateStrOpt (Some (JStr ''encrypt''))))
           = LitFailure ''JWT purpose mismatch. Expected: decrypt, Got: encrypt'' ''decryption_error''"
    by code_simp
  from litActionCodeWithES256K_purpose_mismatch [OF v d, of sampleWorld] p o m
  show ?thesis by simp
qed


subsection \<open>C4: expiry in the two verifiers\<close>

lemma propOf_getProp: "propOf v k = Some x \<Longrightarrow> getProp v k = Inr (Some x)"
  by (cases v) (simp_all add: propOf_def getProp_def)

lemma getProp_object: "getProp (JObj kvs) k = Inr (propOf (JObj kvs) k)"
  by (simp add: propOf_def getProp_def)

lemma verifyES256KJWT_expired:
  assumes "split CHR ''.'' token = [h, p, s]" and "h \<noteq> []" and "p \<noteq> []" and "s \<noteq> []"
    and "decodeSegment rt h = Inr header" and "decodeSegment rt p = Inr payload"
    and "propOf header ''alg'' = Some (JStr ''ES256K'')"
    and "propOf payload ''iss'' = Some (JStr iss)" and "prefix ''did:pkh:eip155:'' iss"
    and "propOf payload ''sub'' = Some (JStr iss)"
    and "last (split CHR '':'' iss) \<noteq> []" and "isAddress rt (last (split CHR '':'' iss))"
    and "propOf payload ''exp'' = Some (JNum e)" and "e < nowMs div 1000"
  shows "verifyES256KJWT rt nowMs token = Inr \<lparr>vr_header = header, vr_payload = payload, valid = False\<rparr>"
proof -
  have alg: "getProp header ''alg'' = Inr (Some (JStr ''ES256K''))"
    by (rule propOf_getProp [OF assms(7)])
  have iss: "getProp payload ''iss'' = Inr (Some (JStr iss))"
    by (rule propOf_getProp [OF assms(8)])
  have expired: "jsLess (propOf payload ''exp'') (nowMs div 1000)"
    using assms(13,14) by (simp add: jsLess_def)
  show ?thesis
    using assms(1-6,9-12) alg iss expired
    by (simp add: verifyES256KJWT_def nthOpt_def falsyStr_def bindE_def asString_def)
qed

lemma verifyJWTWithEdDSA_after_signature:
  assumes "snd (checkCredentialSignature rt world token issuerDID) = Inr (header, payload)"
  shows "snd (verifyJWTWithEdDSA rt world nowMs token issuerDID) = checkTemporalClaims nowMs header payload"
  using assms by (cases "checkCredentialSignature rt world token issuerDID")
    (auto simp: verifyJWTWithEdDSA_def split: sum.splits)

lemma checkTemporalClaims_expired:
  assumes "propOf payload ''exp'' = Some (JNum e)" and "e \<noteq> 0" and "e < nowMs div 1000"
  shows "checkTemporalClaims nowMs header payload = Inl (Error ''JWT expired'')"
  using assms propOf_getProp [OF assms(1)]
  by (simp add: checkTemporalClaims_def bindE_def truthyOpt_def jsLess_def)

lemma checkTemporalClaims_not_yet:
  assumes "propOf payload ''nbf'' = Some (JNum n)" and "n \<noteq> 0" and "nowMs div 1000 < n"
    and "payload = JObj kvs"
  shows "checkTemporalClaims nowMs header payload = Inl (Error ''JWT expired'')
         \<or> checkTemporalClaims nowMs header payload = Inl (Error ''JWT not yet valid'')"
  using assms
  by (auto simp: checkTemporalClaims_def bindE_def truthyOpt_def jsGreater_def getProp_object Let_def)

lemma checkTemporalClaims_epoch:
  assumes "propOf payload ''exp'' = Some (JNum 0)" and "propOf payload ''nbf'' = None"
  shows "checkTemporalClaims nowMs header payload =
           Inr \<lparr>ed_valid = True, ed_payload = payload, ed_header = header,
                ed_issuer = propOf payload ''iss''\<rparr>"
  using assms propOf_getProp [OF assms(1)]
  by (simp add: checkTemporalClaims_def bindE_def truthyOpt_def)

text \<open>
  Claim C4. The ES256K verifier of \<^verbatim>\<open>jwt.ts\<close> reports expiry in its result: for every
  token of three non-empty segments whose header has \<^verbatim>\<open>alg: "ES256K"\<close>, whose \<^verbatim>\<open>iss\<close>
  is a \<^verbatim>\<open>did:pkh:eip155:\<close> identifier ending in a well-formed address and equal to
  \<^verbatim>\<open>sub\<close>, and whose \<^verbatim>\<open>exp\<close> lies before the current second, it returns
  \<^verbatim>\<open>valid: false\<close> and does not throw. The EdDSA verifier of the Lit Action throws:
  once the signature has been checked, a non-zero \<^verbatim>\<open>exp\<close> that has elapsed gives
  \<^verbatim>\<open>JWT expired\<close>, and a non-zero \<^verbatim>\<open>nbf\<close> that lies ahead gives \<^verbatim>\<open>JWT expired\<close> or
  \<^verbatim>\<open>JWT not yet valid\<close>. The last part of the statement is where the code leaves the
  claim: an \<^verbatim>\<open>exp\<close> of \<open>0\<close> is present and has elapsed at every later time, and the
  EdDSA verifier accepts the token, because it tests \<^verbatim>\<open>payload.exp\<close> for truthiness before
  comparing it.
\<close>

theorem expiry_soft_in_ES256K_hard_in_EdDSA:
  "(split CHR ''.'' token = [h, p, s] \<and> h \<noteq> [] \<and> p \<noteq> [] \<and> s \<noteq> []
      \<and> decodeSegment rt h = Inr uheader \<and> decodeSegment rt p = Inr upayload
      \<and> propOf uheader ''alg'' = Some (JStr ''ES256K'')
      \<and> propOf upayload ''iss'' = Some (JStr iss) \<and> prefix ''did:pkh:eip155:'' iss
      \<and> propOf upayload ''sub'' = Some (JStr iss)
      \<and> last (split CHR '':'' iss) \<noteq> [] \<and> isAddress rt (last (split CHR '':'' iss))
      \<and> propOf upayload ''exp'' = Some (JNum e) \<and> e < nowMs div 1000
      \<longrightarrow> verifyES256KJWT rt nowMs token =
            Inr \<lparr>vr_header = uheader, vr_payload = upayload, valid = False\<rparr>)
   \<and> (snd (checkCredentialSignature rt world credential issuerDID) = Inr (header, JObj kvs)
      \<and> ((\<exists>x. propOf (JObj kvs) ''exp'' = Some (JNum x) \<and> x \<noteq> 0 \<and> x < nowMs div 1000)
          \<or> (\<exists>n. propOf (JObj kvs) ''nbf'' = Some (JNum n) \<and> n \<noteq> 0 \<and> nowMs div 1000 < n))
      \<longrightarrow> snd (verifyJWTWithEdDSA rt world nowMs credential issuerDID) = Inl (Error ''JWT expired'')
          \<or> snd (verifyJWTWithEdDSA rt world nowMs credential issuerDID) = Inl (Error ''JWT not yet valid''))
   \<and> (snd (checkCredentialSignature rt world credential issuerDID) = Inr (header, JObj kvs)
      \<and> propOf (JObj kvs) ''exp'' = Some (JNum 0) \<and> propOf (JObj kvs) ''nbf'' = None
      \<longrightarrow> snd (verifyJWTWithEdDSA rt world nowMs credential issuerDID) =
            Inr \<lparr>ed_valid = True, ed_payload = JObj kvs, ed_header = header,
                 ed_issuer = propOf (JObj kvs) ''iss''\<rparr>)"
proof (intro conjI impI)
  assume "split CHR ''.'' token = [h, p, s] \<and> h \<noteq> [] \<and> p \<noteq> [] \<and> s \<noteq> []
      \<and> decodeSegment rt h = Inr uheader \<and> decodeSegment rt p = Inr upayload
      \<and> propOf uheader ''alg'' = Some (JStr ''ES256K'')
      \<and> propOf upayload ''iss'' = Some (JStr iss) \<and> prefix ''did:pkh:eip155:'' iss
      \<and> propOf upayload ''sub'' = Some (JStr iss)
      \<and> last (split CHR '':'' iss) \<noteq> [] \<and> isAddress rt (last (split CHR '':'' iss))
      \<and> propOf upayload ''exp'' = Some (JNum e) \<and> e < nowMs div 1000"
  then show "verifyES256KJWT rt nowMs token =
            Inr \<lparr>vr_header = uheader, vr_payload = upayload, valid = False\<rparr>"
    using verifyES256KJWT_expired by blast
next
  assume a: "snd (checkCredentialSignature rt world credential issuerDID) = Inr (header, JObj kvs)
      \<and> ((\<exists>x. propOf (JObj kvs) ''exp'' = Some (JNum x) \<and> x \<noteq> 0 \<and> x < nowMs div 1000)
          \<or> (\<exists>n. propOf (JObj kvs) ''nbf'' = Some (JNum n) \<and> n \<noteq> 0 \<and> nowMs div 1000 < n))"
  then have eq: "snd (verifyJWTWithEdDSA rt world nowMs credential issuerDID)
      = checkTemporalClaims nowMs header (JObj kvs)"
    using verifyJWTWithEdDSA_after_signature by blast
  from a have "checkTemporalClaims nowMs header (JObj kvs) = Inl (Error ''JWT expired'')
      \<or> checkTemporalClaims nowMs header (JObj kvs) = Inl (Error ''JWT not yet valid'')"
    using checkTemporalClaims_expired checkTemporalClaims_not_yet by blast
  with eq show "snd (verifyJWTWithEdDSA rt world nowMs credential issuerDID) = Inl (Error ''JWT expired'')
          \<or> snd (verifyJWTWithEdDSA rt world nowMs credential issuerDID) = Inl (Error ''JWT not yet valid'')"
    by simp
next
  assume a: "snd (checkCredentialSignature rt world credential issuerDID) = Inr (header, JObj kvs)
      \<and> propOf (JObj kvs) ''exp'' = Some (JNum 0) \<and> propOf (JObj kvs) ''nbf'' = None"
  then have eq: "snd (verifyJWTWithEdDSA rt world nowMs credential issuerDID)
      = checkTemporalClaims nowMs header (JObj kvs)"
    using verifyJWTWithEdDSA_after_signature by blast
  from a show "snd (verifyJWTWithEdDSA rt world nowMs credential issuerDID) =
            Inr \<lparr>ed_valid = True, ed_payload = JObj kvs, ed_header = header,
                 ed_issuer = propOf (JObj kvs) ''iss''\<rparr>"
    unfolding eq using checkTemporalClaims_epoch by blast
qed

text \<open>
  The sample user token, read one second after its expiry; the sample credential, read
  after its expiry; and the credential with \<^verbatim>\<open>exp: 0\<close>, read at the same time.
\<close>

theorem expiry_soft_in_ES256K_hard_in_EdDSA_witness:
  "verifyES256KJWT sampleRuntime 306000 sampleDecryptToken =
     Inr \<lparr>vr_header = sampleHeader, vr_payload = sampleCompletePayload, valid = False\<rparr>
   \<and> snd (verifyJWTWithEdDSA sampleRuntime sampleWorld 101000 sampleCredentialToken
            ''did:web:rebasedemokey.pages.dev'') = Inl (Error ''JWT expired'')
   \<and> snd (verifyJWTWithEdDSA sampleRuntime sampleWorld 101000 epochCredentialToken
            ''did:web:rebasedemokey.pages.dev'') =
         Inr \<lparr>ed_valid = True, ed_payload = epochCredentialPayload,
              ed_header = sampleCredentialHeader,
              ed_issuer = Some (JStr ''did:web:rebasedemokey.pages.dev'')\<rparr>"
proof -
  have s1: "split CHR ''.'' sampleDecryptToken =
      [''SA'', ''UA'', ''c2FtcGxlLXByaXZhdGUta2V5AAAAAAAAAAAAAAAAAABTQS5VQQAAAAAAAAAAAAAAAAAAAAAAAAAAAAAAAAAAAA'']"
    by code_simp
  have s2: "decodeSegment sampleRuntime ''SA'' = Inr sampleHeader"
    by code_simp
  have s3: "decodeSegment sampleRuntime ''UA'' = Inr sampleCompletePayload"
    by code_simp
  have s4: "propOf sampleHeader ''alg'' = Some (JStr ''ES256K'')"
    by code_simp
  have s5: "propOf sampleCompletePayload ''iss'' = Some (JStr sampleDID)"
    "propOf sampleCompletePayload ''sub'' = Some (JStr sampleDID)"
    "propOf sampleCompletePayload ''exp'' = Some (JNum 305)"
    by code_simp+
  have s6: "prefix ''did:pkh:eip155:'' sampleDID" "last (split CHR '':'' sampleDID) \<noteq> []"
    "isAddress sampleRuntime (last (split CHR '':'' sampleDID))"
    by code_simp+
  have s7: "(305::int) < 306000 div 1000" by simp
  have c1: "snd (checkCredentialSignature sampleRuntime sampleWorld sampleCredentialToken
                  ''did:web:rebasedemokey.pages.dev'')
            = Inr (sampleCredentialHeader,
                   JObj [(''iss'', JStr ''did:web:rebasedemokey.pages.dev''),
                         (''sub'', JStr sampleDID), (''exp'', JNum 100), (''nbf'', JNum 10)])"
    by code_simp
  have c2: "propOf (JObj [(''iss'', JStr ''did:web:rebasedemokey.pages.dev''),
                         (''sub'', JStr sampleDID), (''exp'', JNum 100), (''nbf'', JNum 10)]) ''exp''
            = Some (JNum 100)"
    by code_simp
  have c3: "(100::int) \<noteq> 0 \<and> (100::int) < 101000 div 1000" by simp
  have z1: "snd (checkCredentialSignature sampleRuntime sampleWorld epochCredentialToken
                  ''did:web:rebasedemokey.pages.dev'')
            = Inr (sampleCredentialHeader,
                   JObj [(''iss'', JStr ''did:web:rebasedemokey.pages.dev''),
                         (''sub'', JStr sampleDID), (''exp'', JNum 0)])"
    by code_simp
  have z2: "propOf (JObj [(''iss'', JStr ''did:web:rebasedemokey.pages.dev''),
                         (''sub'', JStr sampleDID), (''exp'', JNum 0)]) ''exp'' = Some (JNum 0)"
    "propOf (JObj [(''iss'', JStr ''did:web:rebasedemokey.pages.dev''),
                         (''sub'', JStr sampleDID), (''exp'', JNum 0)]) ''nbf'' = None"
    "propOf (JObj [(''iss'', JStr ''did:web:rebasedemokey.pages.dev''),
                         (''sub'', JStr sampleDID), (''exp'', JNum 0)]) ''iss''
       = Some (JStr ''did:web:rebasedemokey.pages.dev'')"
    by code_simp+
  note main = expiry_soft_in_ES256K_hard_in_EdDSA
  have a: "verifyES256KJWT sampleRuntime 306000 sampleDecryptToken =
     Inr \<lparr>vr_header = sampleHeader, vr_payload = sampleCompletePayload, valid = False\<rparr>"
    using main [where token = sampleDecryptToken and rt = sampleRuntime and nowMs = 306000
        and uheader = sampleHeader and upayload = sampleCompletePayload and iss = sampleDID
        and e = 305 and h = "''SA''" and p = "''UA''"
        and s = "''c2FtcGxlLXByaXZhdGUta2V5AAAAAAAAAAAAAAAAAABTQS5VQQAAAAAAAAAAAAAAAAAAAAAAAAAAAAAAAAAAAA''"]
      s1 s2 s3 s4 s5 s6 s7
    by simp
  have b: "snd (verifyJWTWithEdDSA sampleRuntime sampleWorld 101000 sampleCredentialToken
            ''did:web:rebasedemokey.pages.dev'') = Inl (Error ''JWT expired'')
        \<or> snd (verifyJWTWithEdDSA sampleRuntime sampleWorld 101000 sampleCredentialToken
            ''did:web:rebasedemokey.pages.dev'') = Inl (Error ''JWT not yet valid'')"
    using main [where rt = sampleRuntime and world = sampleWorld and nowMs = 101000
        and credential = sampleCredentialToken and issuerDID = "''did:web:rebasedemokey.pages.dev''"
        and header = sampleCredentialHeader
        and kvs = "[(''iss'', JStr ''did:web:rebasedemokey.pages.dev''),
                         (''sub'', JStr sampleDID), (''exp'', JNum 100), (''nbf'', JNum 10)]"]
      c1 c2 c3
    by blast
  have b': "snd (verifyJWTWithEdDSA sampleRuntime sampleWorld 101000 sampleCredentialToken
            ''did:web:rebasedemokey.pages.dev'') \<noteq> Inl (Error ''JWT not yet valid'')"
    by code_simp
  have c: "snd (verifyJWTWithEdDSA sampleRuntime sampleWorld 101000 epochCredentialToken
            ''did:web:rebasedemokey.pages.dev'') =
         Inr \<lparr>ed_valid = True,
              ed_payload = JObj [(''iss'', JStr ''did:web:rebasedemokey.pages.dev''),
                         (''sub'', JStr sampleDID), (''exp'', JNum 0)],
              ed_header = sampleCredentialHeader,
              ed_issuer = Some (JStr ''did:web:rebasedemokey.pages.dev'')\<rparr>"
    using main [where rt = sampleRuntime and world = sampleWorld and nowMs = 101000
        and credential = epochCredentialToken and issuerDID = "''did:web:rebasedemokey.pages.dev''"
        and header = sampleCredentialHeader
        and kvs = "[(''iss'', JStr ''did:web:rebasedemokey.pages.dev''),
                         (''sub'', JStr sampleDID), (''exp'', JNum 0)]"]
      z1 z2
    by simp
  from a b b' c show ?thesis
    by (simp add: epochCredentialPayload_def)
qed

subsection \<open>C1: \<^verbatim>\<open>verifyES256KJWT\<close> after \<^verbatim>\<open>signES256KJWT\<close>\<close>
































lemma setBytes_signature:
  assumes "length r = 32" "length s = 32"
  shows "setBytes r 0 (replicate 64 (CHR 0x00)) = Inr (r @ replicate 32 (CHR 0x00))"
    and "setBytes s 32 (r @ replicate 32 (CHR 0x00)) = Inr (r @ s)"
  using assms by (simp_all add: setBytes_def)








end
